theory Spec2Isabelle
  imports
    Main
    "HOL-Library.FSet"
    "HOL-Library.Multiset"
    "HOL-Library.Char_ord"
    "HOL-Library.List_Lexorder"
    "HOL-Library.Option_ord"
begin

section \<open>Data model\<close>

text \<open>
  The tables behind \<^verbatim>\<open>songs/views.py\<close>. A table is the list of its rows, each row
  carrying its primary key. A many-to-many relation (artists, requested artists, playlist
  songs) is the finite set of the related primary keys, kept in the row of the owning side:
  Django's \<^verbatim>\<open>.add\<close> and \<^verbatim>\<open>.remove\<close> on a related manager have set semantics.

  \<^verbatim>\<open>models.py\<close> is not among the sources. The fields are the ones the specification
  lists for each entity; a Song and an Album share the fields the release views read
  (title, release date, artists, requested artists), and the file, genre and track fields
  of a Song play no part in the handlers of \<^verbatim>\<open>views.py\<close>.
\<close>

record user =
  user_id :: int
  username :: string
  password :: string
  first_name :: string
  last_name :: string
  birth_date :: "int option"
  country :: "string option"
  email :: "string option"
  is_active :: bool

record release =
  release_id :: int
  title :: string
  release_date :: "int option"
  artists :: "int fset"
  requested_artists :: "int fset"

record playlist =
  playlist_id :: int
  playlist_title :: string
  owner :: int
  created_at :: int
  playlist_songs :: "int fset"

record store =
  users :: "user list"
  songs :: "release list"
  albums :: "release list"
  playlists :: "playlist list"

text \<open>The two view sets that inherit \<^verbatim>\<open>ReleaseMixin\<close>.\<close>

datatype kind = Song | Album

definition table :: "kind \<Rightarrow> store \<Rightarrow> release list" where
  "table k st = (case k of Song \<Rightarrow> songs st | Album \<Rightarrow> albums st)"

definition set_table :: "kind \<Rightarrow> release list \<Rightarrow> store \<Rightarrow> store" where
  "set_table k rows st = (case k of Song \<Rightarrow> st\<lparr>songs := rows\<rparr> | Album \<Rightarrow> st\<lparr>albums := rows\<rparr>)"

section \<open>Requests and responses\<close>

datatype http_method = GET | POST | PUT | PATCH | DELETE

text \<open>\<^verbatim>\<open>request.user\<close>: the anonymous user, or the user row with the given primary key.\<close>

datatype requester = AnonymousUser | AuthUser int

text \<open>
  A primary key as a request carries it, in the URL or in a body field: a value Django
  coerces to an integer, or one it cannot coerce.
\<close>

datatype pk_arg = PkInt int | PkMalformed

datatype body =
    NoData
  | ErrorDetail string string
  | FieldErrors string "string list"
  | ReleaseData release
  | PlaylistData playlist

datatype response = Response (status_code: nat) (data: body)

definition not_found :: response where
  "not_found = Response 404 (ErrorDetail ''detail'' ''Not found.'')"

definition forbidden :: response where
  "forbidden = Response 403 (ErrorDetail ''detail'' ''You do not have permission to perform this action.'')"

definition not_authenticated :: response where
  "not_authenticated = Response 401 (ErrorDetail ''detail'' ''Authentication credentials were not provided.'')"

definition method_name :: "http_method \<Rightarrow> string" where
  "method_name m =
     (case m of GET \<Rightarrow> ''GET'' | POST \<Rightarrow> ''POST'' | PUT \<Rightarrow> ''PUT'' | PATCH \<Rightarrow> ''PATCH''
      | DELETE \<Rightarrow> ''DELETE'')"

text \<open>The detail of a 405 names the method between double quotes (character \<open>0x22\<close>).\<close>

definition method_not_allowed :: "http_method \<Rightarrow> response" where
  "method_not_allowed m =
     Response 405 (ErrorDetail ''detail''
       (''Method '' @ [CHR 0x22] @ method_name m @ [CHR 0x22] @ '' not allowed.''))"

text \<open>An exception no handler catches (a \<^verbatim>\<open>ValueError\<close> from the ORM) ends the request with status 500.\<close>

definition server_error :: response where
  "server_error = Response 500 NoData"

section \<open>The framework: permissions and object lookup\<close>

text \<open>
  A permission class of the REST framework: \<^verbatim>\<open>has_permission\<close> is asked before the
  handler runs, \<^verbatim>\<open>has_object_permission\<close> by \<^verbatim>\<open>get_object\<close> on the row it found.
\<close>

record 'o permission =
  has_permission :: "http_method \<Rightarrow> requester \<Rightarrow> bool"
  has_object_permission :: "http_method \<Rightarrow> requester \<Rightarrow> 'o \<Rightarrow> bool"

definition safe_method :: "http_method \<Rightarrow> bool" where
  "safe_method m \<longleftrightarrow> m = GET"

text \<open>\<^verbatim>\<open>APIView.permission_denied\<close>: 401 for a request without identity, 403 otherwise.\<close>

definition permission_denied :: "requester \<Rightarrow> response" where
  "permission_denied r = (case r of AnonymousUser \<Rightarrow> not_authenticated | AuthUser _ \<Rightarrow> forbidden)"

text \<open>
  \<^verbatim>\<open>GenericAPIView.get_object\<close>: look the primary key up in the view's queryset (the
  framework's own \<^verbatim>\<open>get_object_or_404\<close> also turns a malformed key into 404), then check
  the object permission. Detail requests are taken without a search parameter.
\<close>

definition get_object ::
  "'o permission \<Rightarrow> ('o \<Rightarrow> int) \<Rightarrow> 'o list \<Rightarrow> http_method \<Rightarrow> requester \<Rightarrow> pk_arg \<Rightarrow> response + 'o" where
  "get_object perm pk_of queryset m r pk =
     (case pk of
        PkMalformed \<Rightarrow> Inl not_found
      | PkInt k \<Rightarrow>
          (case find (\<lambda>obj. pk_of obj = k) queryset of
             None \<Rightarrow> Inl not_found
           | Some obj \<Rightarrow>
               if has_object_permission perm m r obj then Inr obj
               else Inl (permission_denied r)))"

text \<open>
  \<^verbatim>\<open>django.shortcuts.get_object_or_404(Model, pk=value)\<close>, the one \<^verbatim>\<open>views.py\<close> imports:
  a missing row is 404, a value that is no integer raises \<^verbatim>\<open>ValueError\<close>.
\<close>

definition get_object_or_404 :: "('o \<Rightarrow> int) \<Rightarrow> 'o list \<Rightarrow> pk_arg \<Rightarrow> response + 'o" where
  "get_object_or_404 pk_of rows pk =
     (case pk of
        PkMalformed \<Rightarrow> Inl server_error
      | PkInt k \<Rightarrow>
          (case find (\<lambda>obj. pk_of obj = k) rows of
             None \<Rightarrow> Inl not_found
           | Some obj \<Rightarrow> Inr obj))"

text \<open>
  \<^verbatim>\<open>Model.save()\<close> of a loaded instance: an UPDATE of the rows with its primary key, and
  an INSERT when there is none.
\<close>

definition save_row :: "('o \<Rightarrow> int) \<Rightarrow> 'o \<Rightarrow> 'o list \<Rightarrow> 'o list" where
  "save_row pk_of row rows =
     (if \<exists>x \<in> set rows. pk_of x = pk_of row
      then map (\<lambda>x. if pk_of x = pk_of row then row else x) rows
      else rows @ [row])"

text \<open>The key a new row gets: one above every key of the table.\<close>

definition next_pk :: "int list \<Rightarrow> int" where
  "next_pk ks = fold max ks 0 + 1"

section \<open>Permission classes\<close>

text \<open>
  Modelled from the spec: \<^verbatim>\<open>permissions.py\<close> is missing. Section 4.3: a User may be
  read by anyone and updated or deleted only when the acting identity is the target user.
\<close>

definition IsUserOrReadOnly :: "user permission" where
  "IsUserOrReadOnly =
     \<lparr>has_permission = (\<lambda>m r. True),
      has_object_permission = (\<lambda>m r u. safe_method m \<or> r = AuthUser (user_id u))\<rparr>"

section \<open>UserViewSet\<close>

text \<open>\<^verbatim>\<open>queryset = User.objects.all().order_by("username")\<close>\<close>

definition user_queryset :: "store \<Rightarrow> user list" where
  "user_queryset st = sort_key username (users st)"

text \<open>\<^verbatim>\<open>UserViewSet.create\<close>: always 405.\<close>

definition user_create :: "user permission \<Rightarrow> requester \<Rightarrow> store \<Rightarrow> response \<times> store" where
  "user_create perm r st =
     (if \<not> has_permission perm POST r then (permission_denied r, st)
      else (Response 405 (ErrorDetail ''detail'' ''Use register.''), st))"

text \<open>\<^verbatim>\<open>UserViewSet.destroy\<close>: clear the active flag of the user found and save it.\<close>

definition user_destroy :: "user permission \<Rightarrow> requester \<Rightarrow> pk_arg \<Rightarrow> store \<Rightarrow> response \<times> store" where
  "user_destroy perm r pk st =
     (if \<not> has_permission perm DELETE r then (permission_denied r, st)
      else
        (case get_object perm user_id (user_queryset st) DELETE r pk of
           Inl err \<Rightarrow> (err, st)
         | Inr u \<Rightarrow>
             let u' = u\<lparr>is_active := False\<rparr>
             in (Response 204 NoData, st\<lparr>users := save_row user_id u' (users st)\<rparr>)))"

definition UserViewSet_destroy :: "requester \<Rightarrow> pk_arg \<Rightarrow> store \<Rightarrow> response \<times> store" where
  "UserViewSet_destroy = user_destroy IsUserOrReadOnly"

text \<open>
  What a request presents to establish its identity: no Authorization header, or the bearer
  token that registration or login issued to the user with the given key.
\<close>

datatype credentials = NoCredentials | BearerToken int

definition authentication_failed :: "string \<Rightarrow> response" where
  "authentication_failed detail = Response 401 (ErrorDetail ''detail'' detail)"

text \<open>
  Modelled from the spec: the token library and the settings that install it are missing.
  Section 4.2: on each authenticated request a presented bearer token is resolved back to
  a live user identity, or the request fails as unauthenticated; without a header the
  request is anonymous. A user whose active flag is cleared is not live.
\<close>

definition resolve_token :: "store \<Rightarrow> credentials \<Rightarrow> response + requester" where
  "resolve_token st c =
     (case c of
        NoCredentials \<Rightarrow> Inr AnonymousUser
      | BearerToken k \<Rightarrow>
          (case find (\<lambda>u. user_id u = k) (users st) of
             None \<Rightarrow> Inl (authentication_failed ''Invalid token.'')
           | Some u \<Rightarrow>
               if is_active u then Inr (AuthUser k)
               else Inl (authentication_failed ''User inactive or deleted.'')))"

text \<open>The DELETE on the user detail endpoint as a client sends it: authentication, then the view.\<close>

definition UserViewSet_destroy_request :: "credentials \<Rightarrow> pk_arg \<Rightarrow> store \<Rightarrow> response \<times> store" where
  "UserViewSet_destroy_request c pk st =
     (case resolve_token st c of
        Inl err \<Rightarrow> (err, st)
      | Inr r \<Rightarrow> UserViewSet_destroy r pk st)"

text \<open>
  Modelled from the spec: \<^verbatim>\<open>permissions.py\<close> is missing. Section 4.3: a Song or
  Album may be read by anyone, created by any authenticated identity, and updated, deleted
  or managed only by a current artist of the release.
\<close>

definition IsArtistOrReadOnly :: "release permission" where
  "IsArtistOrReadOnly =
     \<lparr>has_permission = (\<lambda>m r. safe_method m \<or> r \<noteq> AnonymousUser),
      has_object_permission = (\<lambda>m r x. safe_method m \<or>
         (case r of AnonymousUser \<Rightarrow> False | AuthUser u \<Rightarrow> u |\<in>| artists x))\<rparr>"

text \<open>
  Modelled from the spec: \<^verbatim>\<open>permissions.py\<close> is missing. Section 4.3: confirming is
  allowed only to the identity that is itself in the requested-artists set.
\<close>

definition IsRequestedArtist :: "release permission" where
  "IsRequestedArtist =
     \<lparr>has_permission = (\<lambda>m r. True),
      has_object_permission = (\<lambda>m r x.
         (case r of AnonymousUser \<Rightarrow> False | AuthUser u \<Rightarrow> u |\<in>| requested_artists x))\<rparr>"

text \<open>
  Modelled from the spec: \<^verbatim>\<open>permissions.py\<close> is missing. Section 4.3: a Playlist is
  visible and operable only by its owner.
\<close>

definition IsPlaylistOwner :: "playlist permission" where
  "IsPlaylistOwner =
     \<lparr>has_permission = (\<lambda>m r. r \<noteq> AnonymousUser),
      has_object_permission = (\<lambda>m r p. r = AuthUser (owner p))\<rparr>"

section \<open>Collaboration helpers\<close>

text \<open>
  The signatures of the functions \<^verbatim>\<open>views.py\<close> imports from \<^verbatim>\<open>helpers.py\<close>: each
  takes model instances and \<^verbatim>\<open>request.user\<close>, writes to the database and returns the
  response of the request.
\<close>

type_synonym artist_helper = "kind \<Rightarrow> release \<Rightarrow> user \<Rightarrow> requester \<Rightarrow> store \<Rightarrow> response \<times> store"

type_synonym self_helper = "kind \<Rightarrow> release \<Rightarrow> requester \<Rightarrow> store \<Rightarrow> response \<times> store"

type_synonym song_helper = "playlist \<Rightarrow> release \<Rightarrow> store \<Rightarrow> response \<times> store"

text \<open>A write to a relation of the release with key \<open>rid\<close>.\<close>

definition update_release :: "kind \<Rightarrow> int \<Rightarrow> (release \<Rightarrow> release) \<Rightarrow> store \<Rightarrow> store" where
  "update_release k rid f st =
     set_table k (map (\<lambda>x. if release_id x = rid then f x else x) (table k st)) st"

definition update_playlist :: "int \<Rightarrow> (playlist \<Rightarrow> playlist) \<Rightarrow> store \<Rightarrow> store" where
  "update_playlist pid f st =
     st\<lparr>playlists := map (\<lambda>x. if playlist_id x = pid then f x else x) (playlists st)\<rparr>"

text \<open>
  Modelled from the spec: \<^verbatim>\<open>helpers.py\<close> is missing. Section 4.5:
  \<^verbatim>\<open>add_artist_to_requested(release, candidate, actor)\<close> requires the actor to be an
  artist of the release and adds the candidate to the requested artists, with no further
  check; it answers OK with the updated release, or an error without a write.
\<close>

definition add_artist_to_requested :: artist_helper where
  "add_artist_to_requested k entity artist r st =
     (case r of
        AnonymousUser \<Rightarrow> (forbidden, st)
      | AuthUser a \<Rightarrow>
          if a |\<in>| artists entity then
            let f = (\<lambda>x. x\<lparr>requested_artists := finsert (user_id artist) (requested_artists x)\<rparr>)
            in (Response 200 (ReleaseData (f entity)), update_release k (release_id entity) f st)
          else (forbidden, st))"

text \<open>
  Modelled from the spec: \<^verbatim>\<open>helpers.py\<close> is missing. Section 4.5:
  \<^verbatim>\<open>remove_artist_from_requested(release, candidate, actor)\<close> requires the actor to be
  an artist of the release and removes the candidate from the requested artists.
\<close>

definition remove_artist_from_requested :: artist_helper where
  "remove_artist_from_requested k entity artist r st =
     (case r of
        AnonymousUser \<Rightarrow> (forbidden, st)
      | AuthUser a \<Rightarrow>
          if a |\<in>| artists entity then
            let f = (\<lambda>x. x\<lparr>requested_artists := requested_artists x |-| {|user_id artist|}\<rparr>)
            in (Response 200 (ReleaseData (f entity)), update_release k (release_id entity) f st)
          else (forbidden, st))"

text \<open>
  Modelled from the spec: \<^verbatim>\<open>helpers.py\<close> is missing. Section 4.5:
  \<^verbatim>\<open>confirm_user_as_artist(release, actor)\<close> removes the actor from the requested
  artists and adds the actor to the artists in one step; membership in the requested
  artists is the policy's check, not the helper's.
\<close>

definition confirm_user_as_artist :: self_helper where
  "confirm_user_as_artist k entity r st =
     (case r of
        AnonymousUser \<Rightarrow> (server_error, st)
      | AuthUser u \<Rightarrow>
          let f = (\<lambda>x. x\<lparr>artists := finsert u (artists x),
                           requested_artists := requested_artists x |-| {|u|}\<rparr>)
          in (Response 200 (ReleaseData (f entity)), update_release k (release_id entity) f st))"

text \<open>
  Modelled from the spec: \<^verbatim>\<open>helpers.py\<close> is missing. Section 4.5:
  \<^verbatim>\<open>remove_user_as_artist(release, actor)\<close> removes the actor from the artists, with
  no floor on the number of artists left.
\<close>

definition remove_user_as_artist :: self_helper where
  "remove_user_as_artist k entity r st =
     (case r of
        AnonymousUser \<Rightarrow> (server_error, st)
      | AuthUser u \<Rightarrow>
          let f = (\<lambda>x. x\<lparr>artists := artists x |-| {|u|}\<rparr>)
          in (Response 200 (ReleaseData (f entity)), update_release k (release_id entity) f st))"

text \<open>
  Modelled from the spec: \<^verbatim>\<open>helpers.py\<close> is missing. Section 4.5:
  \<^verbatim>\<open>add_song_to_playlist\<close> and \<^verbatim>\<open>remove_song_from_playlist\<close> change the song set of
  the playlist and answer OK with the updated playlist.
\<close>

definition add_song_to_playlist :: song_helper where
  "add_song_to_playlist p song st =
     (let f = (\<lambda>x. x\<lparr>playlist_songs := finsert (release_id song) (playlist_songs x)\<rparr>)
      in (Response 200 (PlaylistData (f p)), update_playlist (playlist_id p) f st))"

definition remove_song_from_playlist :: song_helper where
  "remove_song_from_playlist p song st =
     (let f = (\<lambda>x. x\<lparr>playlist_songs := playlist_songs x |-| {|release_id song|}\<rparr>)
      in (Response 200 (PlaylistData (f p)), update_playlist (playlist_id p) f st))"

section \<open>ReleaseMixin, SongViewSet and AlbumViewSet\<close>

text \<open>
  \<^verbatim>\<open>queryset = Song.objects.all().order_by("-release_date")\<close>, and the same for Album.
  A release without a date sorts below every date, so it comes last (the order SQLite
  gives to NULL). Releases of the same date come in the order of the table.
\<close>

definition release_queryset :: "kind \<Rightarrow> store \<Rightarrow> release list" where
  "release_queryset k st = rev (sort_key release_date (rev (table k st)))"

text \<open>
  \<^verbatim>\<open>ReleaseMixin.perform_create\<close>: \<^verbatim>\<open>serializer.save()\<close> inserts the validated
  instance under a new key, then the current user is added to its artists. Adding the
  anonymous user raises, after the insert.
\<close>

definition release_perform_create ::
  "kind \<Rightarrow> requester \<Rightarrow> release \<Rightarrow> store \<Rightarrow> release option \<times> store" where
  "release_perform_create k r validated st =
     (let entity_instance = validated\<lparr>release_id := next_pk (map release_id (table k st))\<rparr>;
          st1 = set_table k (table k st @ [entity_instance]) st
      in case r of
           AnonymousUser \<Rightarrow> (None, st1)
         | AuthUser u \<Rightarrow>
             let f = (\<lambda>x. x\<lparr>artists := finsert u (artists x)\<rparr>)
             in (Some (f entity_instance), update_release k (release_id entity_instance) f st1))"

text \<open>
  \<^verbatim>\<open>CreateModelMixin.create\<close> around it: validate, \<^verbatim>\<open>perform_create\<close>, answer 201
  with the stored instance. The serializer (\<^verbatim>\<open>serializers.py\<close> is missing) is the
  parameter \<open>validate\<close>: the field errors, or the instance to save.
\<close>

definition release_create ::
  "release permission \<Rightarrow> ('p \<Rightarrow> requester \<Rightarrow> store \<Rightarrow> body + release) \<Rightarrow>
   kind \<Rightarrow> requester \<Rightarrow> 'p \<Rightarrow> store \<Rightarrow> response \<times> store" where
  "release_create perm validate k r payload st =
     (if \<not> has_permission perm POST r then (permission_denied r, st)
      else
        (case validate payload r st of
           Inl errors \<Rightarrow> (Response 400 errors, st)
         | Inr validated \<Rightarrow>
             (case release_perform_create k r validated st of
                (None, st') \<Rightarrow> (server_error, st')
              | (Some entity, st') \<Rightarrow> (Response 201 (ReleaseData entity), st'))))"

text \<open>
  \<^verbatim>\<open>ReleaseMixin.manage_requested_artists\<close>, an action for POST and DELETE under the
  view set's permission class.
\<close>

definition manage_requested_artists ::
  "release permission \<Rightarrow> artist_helper \<Rightarrow> artist_helper \<Rightarrow>
   kind \<Rightarrow> http_method \<Rightarrow> requester \<Rightarrow> pk_arg \<Rightarrow> pk_arg option \<Rightarrow> store \<Rightarrow> response \<times> store" where
  "manage_requested_artists perm add_helper remove_helper k m r pk artist_id st =
     (if \<not> has_permission perm m r then (permission_denied r, st)
      else if m \<noteq> POST \<and> m \<noteq> DELETE then (method_not_allowed m, st)
      else
        (case get_object perm release_id (release_queryset k st) m r pk of
           Inl err \<Rightarrow> (err, st)
         | Inr entity \<Rightarrow>
             (case artist_id of
                None \<Rightarrow> (Response 400 (ErrorDetail ''artist_id'' ''This field is required.''), st)
              | Some a \<Rightarrow>
                  (case get_object_or_404 user_id (users st) a of
                     Inl err \<Rightarrow> (err, st)
                   | Inr artist \<Rightarrow>
                       if m = POST then add_helper k entity artist r st
                       else remove_helper k entity artist r st))))"

text \<open>
  \<^verbatim>\<open>ReleaseMixin.confirm_current_user_as_artist\<close>, an action for POST with its own
  permission classes.
\<close>

definition confirm_current_user_as_artist ::
  "release permission \<Rightarrow> self_helper \<Rightarrow> kind \<Rightarrow> http_method \<Rightarrow> requester \<Rightarrow> pk_arg \<Rightarrow> store \<Rightarrow>
   response \<times> store" where
  "confirm_current_user_as_artist perm helper k m r pk st =
     (if \<not> has_permission perm m r then (permission_denied r, st)
      else if m \<noteq> POST then (method_not_allowed m, st)
      else
        (case get_object perm release_id (release_queryset k st) m r pk of
           Inl err \<Rightarrow> (err, st)
         | Inr entity \<Rightarrow> helper k entity r st))"

text \<open>\<^verbatim>\<open>ReleaseMixin.remove_current_user_as_artist\<close>, an action for DELETE.\<close>

definition remove_current_user_as_artist ::
  "release permission \<Rightarrow> self_helper \<Rightarrow> kind \<Rightarrow> http_method \<Rightarrow> requester \<Rightarrow> pk_arg \<Rightarrow> store \<Rightarrow>
   response \<times> store" where
  "remove_current_user_as_artist perm helper k m r pk st =
     (if \<not> has_permission perm m r then (permission_denied r, st)
      else if m \<noteq> DELETE then (method_not_allowed m, st)
      else
        (case get_object perm release_id (release_queryset k st) m r pk of
           Inl err \<Rightarrow> (err, st)
         | Inr entity \<Rightarrow> helper k entity r st))"

text \<open>
  The two view sets as \<^verbatim>\<open>views.py\<close> wires them: \<^verbatim>\<open>IsArtistOrReadOnly\<close> for the view
  set, \<^verbatim>\<open>IsRequestedArtist\<close> for the confirmation, and the helpers of \<^verbatim>\<open>helpers.py\<close>.
\<close>

definition ReleaseViewSet_create ::
  "('p \<Rightarrow> requester \<Rightarrow> store \<Rightarrow> body + release) \<Rightarrow> kind \<Rightarrow> requester \<Rightarrow> 'p \<Rightarrow> store \<Rightarrow> response \<times> store" where
  "ReleaseViewSet_create = release_create IsArtistOrReadOnly"

definition ReleaseViewSet_manage_requested_artists ::
  "kind \<Rightarrow> http_method \<Rightarrow> requester \<Rightarrow> pk_arg \<Rightarrow> pk_arg option \<Rightarrow> store \<Rightarrow> response \<times> store" where
  "ReleaseViewSet_manage_requested_artists =
     manage_requested_artists IsArtistOrReadOnly add_artist_to_requested remove_artist_from_requested"

definition ReleaseViewSet_confirm_current_user_as_artist ::
  "kind \<Rightarrow> http_method \<Rightarrow> requester \<Rightarrow> pk_arg \<Rightarrow> store \<Rightarrow> response \<times> store" where
  "ReleaseViewSet_confirm_current_user_as_artist =
     confirm_current_user_as_artist IsRequestedArtist confirm_user_as_artist"

definition ReleaseViewSet_remove_current_user_as_artist ::
  "kind \<Rightarrow> http_method \<Rightarrow> requester \<Rightarrow> pk_arg \<Rightarrow> store \<Rightarrow> response \<times> store" where
  "ReleaseViewSet_remove_current_user_as_artist =
     remove_current_user_as_artist IsArtistOrReadOnly remove_user_as_artist"

section \<open>PlaylistViewSet\<close>

text \<open>
  \<^verbatim>\<open>PlaylistViewSet.get_queryset\<close>:
  \<^verbatim>\<open>Playlist.objects.filter(owner=self.request.user).order_by("-created_at")\<close>.
  The anonymous user is no value the ORM accepts for the owner: the filter raises.
  Playlists of the same creation time come in the order of the table.
\<close>

definition playlist_get_queryset :: "requester \<Rightarrow> store \<Rightarrow> playlist list option" where
  "playlist_get_queryset r st =
     (case r of
        AnonymousUser \<Rightarrow> None
      | AuthUser u \<Rightarrow>
          Some (rev (sort_key created_at (rev (filter (\<lambda>p. owner p = u) (playlists st))))))"

text \<open>The body of a playlist request: the fields the specification names, each optional.\<close>

record playlist_payload =
  payload_title :: "string option"
  payload_owner :: "pk_arg option"

text \<open>
  Modelled from the spec: \<^verbatim>\<open>serializers.py\<close> is missing. Sections 3 and 4.4: the title
  of a playlist is required and not empty (a partial update may leave it out); an owner in
  the input is accepted and discarded.
\<close>

definition PlaylistSerializer_title :: "bool \<Rightarrow> playlist_payload \<Rightarrow> body + string option" where
  "PlaylistSerializer_title partial payload =
     (case payload_title payload of
        None \<Rightarrow> if partial then Inr None else Inl (FieldErrors ''title'' [''This field is required.''])
      | Some t \<Rightarrow> if t = [] then Inl (FieldErrors ''title'' [''This field may not be blank.''])
                  else Inr (Some t))"

definition PlaylistSerializer_create :: "playlist_payload \<Rightarrow> body + playlist" where
  "PlaylistSerializer_create payload =
     (case PlaylistSerializer_title False payload of
        Inl errors \<Rightarrow> Inl errors
      | Inr None \<Rightarrow> Inl (FieldErrors ''title'' [''This field is required.''])
      | Inr (Some t) \<Rightarrow>
          Inr \<lparr>playlist_id = 0, playlist_title = t, owner = 0, created_at = 0, playlist_songs = {||}\<rparr>)"

definition PlaylistSerializer_update :: "bool \<Rightarrow> playlist \<Rightarrow> playlist_payload \<Rightarrow> body + playlist" where
  "PlaylistSerializer_update partial instance payload =
     (case PlaylistSerializer_title partial payload of
        Inl errors \<Rightarrow> Inl errors
      | Inr None \<Rightarrow> Inr instance
      | Inr (Some t) \<Rightarrow> Inr (instance\<lparr>playlist_title := t\<rparr>))"

text \<open>
  \<^verbatim>\<open>PlaylistViewSet.perform_create\<close>: \<^verbatim>\<open>serializer.save(owner=self.request.user)\<close>.
  The keyword argument overrides whatever owner the validated data hold; the row gets a
  new key and the time of creation. The anonymous user cannot be assigned as an owner.
\<close>

definition playlist_perform_create ::
  "requester \<Rightarrow> int \<Rightarrow> playlist \<Rightarrow> store \<Rightarrow> playlist option \<times> store" where
  "playlist_perform_create r now validated st =
     (case r of
        AnonymousUser \<Rightarrow> (None, st)
      | AuthUser u \<Rightarrow>
          let p = validated\<lparr>playlist_id := next_pk (map playlist_id (playlists st)),
                            owner := u, created_at := now\<rparr>
          in (Some p, st\<lparr>playlists := playlists st @ [p]\<rparr>))"

text \<open>\<^verbatim>\<open>CreateModelMixin.create\<close> for playlists.\<close>

definition playlist_create ::
  "playlist permission \<Rightarrow> ('p \<Rightarrow> body + playlist) \<Rightarrow> int \<Rightarrow> requester \<Rightarrow> 'p \<Rightarrow> store \<Rightarrow>
   response \<times> store" where
  "playlist_create perm validate now r payload st =
     (if \<not> has_permission perm POST r then (permission_denied r, st)
      else
        (case validate payload of
           Inl errors \<Rightarrow> (Response 400 errors, st)
         | Inr validated \<Rightarrow>
             (case playlist_perform_create r now validated st of
                (None, st') \<Rightarrow> (server_error, st')
              | (Some p, st') \<Rightarrow> (Response 201 (PlaylistData p), st'))))"

text \<open>
  The detail route of the model view set (\<^verbatim>\<open>retrieve\<close>, \<^verbatim>\<open>update\<close>,
  \<^verbatim>\<open>partial_update\<close>, \<^verbatim>\<open>destroy\<close>): each handler starts with \<^verbatim>\<open>get_object\<close> on
  \<^verbatim>\<open>get_queryset\<close>; an update validates, saves and answers 200, a destroy deletes the
  row and answers 204.
\<close>

definition playlist_detail ::
  "playlist permission \<Rightarrow> (bool \<Rightarrow> playlist \<Rightarrow> 'p \<Rightarrow> body + playlist) \<Rightarrow>
   http_method \<Rightarrow> requester \<Rightarrow> pk_arg \<Rightarrow> 'p \<Rightarrow> store \<Rightarrow> response \<times> store" where
  "playlist_detail perm validate_update m r pk payload st =
     (if \<not> has_permission perm m r then (permission_denied r, st)
      else if m = POST then (method_not_allowed m, st)
      else
        (case playlist_get_queryset r st of
           None \<Rightarrow> (server_error, st)
         | Some queryset \<Rightarrow>
             (case get_object perm playlist_id queryset m r pk of
                Inl err \<Rightarrow> (err, st)
              | Inr p \<Rightarrow>
                  if m = GET then (Response 200 (PlaylistData p), st)
                  else if m = DELETE then
                    (Response 204 NoData,
                     st\<lparr>playlists := filter (\<lambda>x. playlist_id x \<noteq> playlist_id p) (playlists st)\<rparr>)
                  else
                    (case validate_update (m = PATCH) p payload of
                       Inl errors \<Rightarrow> (Response 400 errors, st)
                     | Inr p' \<Rightarrow>
                         (Response 200 (PlaylistData p'),
                          st\<lparr>playlists := save_row playlist_id p' (playlists st)\<rparr>)))))"

text \<open>\<^verbatim>\<open>PlaylistViewSet.manage_songs\<close>, an action for POST and DELETE.\<close>

definition manage_songs ::
  "playlist permission \<Rightarrow> song_helper \<Rightarrow> song_helper \<Rightarrow>
   http_method \<Rightarrow> requester \<Rightarrow> pk_arg \<Rightarrow> pk_arg option \<Rightarrow> store \<Rightarrow> response \<times> store" where
  "manage_songs perm add_helper remove_helper m r pk song_id st =
     (if \<not> has_permission perm m r then (permission_denied r, st)
      else if m \<noteq> POST \<and> m \<noteq> DELETE then (method_not_allowed m, st)
      else
        (case playlist_get_queryset r st of
           None \<Rightarrow> (server_error, st)
         | Some queryset \<Rightarrow>
             (case get_object perm playlist_id queryset m r pk of
                Inl err \<Rightarrow> (err, st)
              | Inr p \<Rightarrow>
                  (case song_id of
                     None \<Rightarrow> (Response 400 (ErrorDetail ''song_id'' ''This field is required.''), st)
                   | Some s \<Rightarrow>
                       (case get_object_or_404 release_id (songs st) s of
                          Inl err \<Rightarrow> (err, st)
                        | Inr song \<Rightarrow>
                            if m = POST then add_helper p song st
                            else remove_helper p song st)))))"

text \<open>The view set as \<^verbatim>\<open>views.py\<close> wires it.\<close>

definition PlaylistViewSet_create ::
  "int \<Rightarrow> requester \<Rightarrow> playlist_payload \<Rightarrow> store \<Rightarrow> response \<times> store" where
  "PlaylistViewSet_create = playlist_create IsPlaylistOwner PlaylistSerializer_create"

definition PlaylistViewSet_detail ::
  "http_method \<Rightarrow> requester \<Rightarrow> pk_arg \<Rightarrow> playlist_payload \<Rightarrow> store \<Rightarrow> response \<times> store" where
  "PlaylistViewSet_detail = playlist_detail IsPlaylistOwner PlaylistSerializer_update"

definition PlaylistViewSet_manage_songs ::
  "http_method \<Rightarrow> requester \<Rightarrow> pk_arg \<Rightarrow> pk_arg option \<Rightarrow> store \<Rightarrow> response \<times> store" where
  "PlaylistViewSet_manage_songs = manage_songs IsPlaylistOwner add_song_to_playlist remove_song_from_playlist"

section \<open>List endpoints: ordering and search\<close>

text \<open>
  \<^verbatim>\<open>filter_backends = [filters.SearchFilter]\<close>: a record passes when every search term
  is contained, without regard to case, in one of the fields of \<^verbatim>\<open>search_fields\<close>. The
  terms are the words of the search parameter; no parameter is no term.
\<close>

definition ascii_lower :: "char \<Rightarrow> char" where
  "ascii_lower c =
     (case map_of (zip ''ABCDEFGHIJKLMNOPQRSTUVWXYZ'' ''abcdefghijklmnopqrstuvwxyz'') c of
        None \<Rightarrow> c
      | Some d \<Rightarrow> d)"

fun starts_with :: "string \<Rightarrow> string \<Rightarrow> bool" where
  "starts_with [] s = True"
| "starts_with (c # t) [] = False"
| "starts_with (c # t) (d # s) = (c = d \<and> starts_with t s)"

fun contains :: "string \<Rightarrow> string \<Rightarrow> bool" where
  "contains t [] = (t = [])"
| "contains t (d # s) = (starts_with t (d # s) \<or> contains t s)"

definition icontains :: "string \<Rightarrow> string \<Rightarrow> bool" where
  "icontains t s = contains (map ascii_lower t) (map ascii_lower s)"

definition search_matches :: "string list \<Rightarrow> string list \<Rightarrow> bool" where
  "search_matches terms texts \<longleftrightarrow> (\<forall>t \<in> set terms. \<exists>s \<in> set texts. icontains t s)"

text \<open>\<^verbatim>\<open>UserViewSet\<close>: \<^verbatim>\<open>search_fields = ["username", "country"]\<close>\<close>

definition user_search_fields :: "user \<Rightarrow> string list" where
  "user_search_fields u = username u # (case country u of None \<Rightarrow> [] | Some c \<Rightarrow> [c])"

definition user_list :: "string list \<Rightarrow> store \<Rightarrow> user list" where
  "user_list terms st = filter (\<lambda>u. search_matches terms (user_search_fields u)) (user_queryset st)"

text \<open>
  \<^verbatim>\<open>SongViewSet\<close> and \<^verbatim>\<open>AlbumViewSet\<close>:
  \<^verbatim>\<open>search_fields = ["title", "artists__username"]\<close>. The filter puts all terms in one
  condition over the join of the release with its artists: a release has one joined row for
  each of its artists, holding the title and the user name of that artist, or a single row
  with the title alone when it has no artist. The release passes when one of its joined
  rows matches every term, and it is listed once.
\<close>

definition release_search_rows :: "store \<Rightarrow> release \<Rightarrow> string list list" where
  "release_search_rows st x =
     (case filter (\<lambda>u. user_id u |\<in>| artists x) (users st) of
        [] \<Rightarrow> [[title x]]
      | a # as \<Rightarrow> map (\<lambda>u. [title x, username u]) (a # as))"

definition release_list :: "kind \<Rightarrow> string list \<Rightarrow> store \<Rightarrow> release list" where
  "release_list k terms st =
     filter (\<lambda>x. \<exists>row \<in> set (release_search_rows st x). search_matches terms row)
       (release_queryset k st)"

text \<open>
  \<^verbatim>\<open>PlaylistViewSet\<close>: \<^verbatim>\<open>search_fields = ["title"]\<close>, on the requester's own playlists.
  There is no list for the anonymous requester, for whom \<^verbatim>\<open>get_queryset\<close> raises.
\<close>

definition playlist_list :: "requester \<Rightarrow> string list \<Rightarrow> store \<Rightarrow> playlist list option" where
  "playlist_list r terms st =
     map_option (filter (\<lambda>p. search_matches terms [playlist_title p])) (playlist_get_queryset r st)"

section \<open>The fixture of the test suite\<close>

text \<open>
  The rows \<^verbatim>\<open>tests.py\<close> creates in its \<^verbatim>\<open>setUp\<close> methods: two users, a song, an
  album and a playlist for each of them.
\<close>

definition old_user :: user where
  "old_user = \<lparr>user_id = 1, username = ''old_user'', password = ''pbkdf2-1'', first_name = ''Old'',
     last_name = ''User'', birth_date = Some 19000, country = Some ''US'',
     email = Some ''old_user@example.com'', is_active = True\<rparr>"

definition old_user_2 :: user where
  "old_user_2 = \<lparr>user_id = 2, username = ''old_user_2'', password = ''pbkdf2-2'', first_name = [],
     last_name = [], birth_date = None, country = None, email = None, is_active = True\<rparr>"

definition old_song :: release where
  "old_song = \<lparr>release_id = 1, title = ''Old song'', release_date = Some 19000,
     artists = {|1|}, requested_artists = {||}\<rparr>"

definition old_song_2 :: release where
  "old_song_2 = \<lparr>release_id = 2, title = ''Old song'', release_date = Some 19000,
     artists = {|2|}, requested_artists = {||}\<rparr>"

definition old_album :: release where
  "old_album = \<lparr>release_id = 1, title = ''Old album'', release_date = Some 19000,
     artists = {|1|}, requested_artists = {||}\<rparr>"

definition old_album_2 :: release where
  "old_album_2 = \<lparr>release_id = 2, title = ''Old album 2'', release_date = Some 19000,
     artists = {|2|}, requested_artists = {||}\<rparr>"

definition old_playlist :: playlist where
  "old_playlist = \<lparr>playlist_id = 1, playlist_title = ''Old playlist'', owner = 1,
     created_at = 100, playlist_songs = {|1|}\<rparr>"

definition old_playlist_2 :: playlist where
  "old_playlist_2 = \<lparr>playlist_id = 2, playlist_title = ''Old playlist 2'', owner = 2,
     created_at = 200, playlist_songs = {|1, 2|}\<rparr>"

definition test_store :: store where
  "test_store = \<lparr>users = [old_user, old_user_2], songs = [old_song, old_song_2],
     albums = [old_album, old_album_2], playlists = [old_playlist, old_playlist_2]\<rparr>"

text \<open>
  The song of \<open>old_user\<close> after \<open>old_user\<close> has requested \<open>old_user_2\<close> as an artist, and
  after \<open>old_user\<close> has requested \<open>old_user\<close>.
\<close>

definition requested_store :: store where
  "requested_store = test_store\<lparr>songs := [old_song\<lparr>requested_artists := {|2|}\<rparr>, old_song_2]\<rparr>"

definition self_requested_store :: store where
  "self_requested_store = test_store\<lparr>songs := [old_song\<lparr>requested_artists := {|1|}\<rparr>, old_song_2]\<rparr>"

text \<open>The users after \<open>old_user_2\<close> has deleted their account.\<close>

definition deleted_store :: store where
  "deleted_store = test_store\<lparr>users := [old_user, old_user_2\<lparr>is_active := False\<rparr>]\<rparr>"

text \<open>Two users and a song of both, for the search over the artists of a release.\<close>

definition alice :: user where
  "alice = \<lparr>user_id = 1, username = ''alice'', password = ''pbkdf2-3'', first_name = [],
     last_name = [], birth_date = None, country = Some ''BG'', email = None, is_active = True\<rparr>"

definition bob :: user where
  "bob = \<lparr>user_id = 2, username = ''bob'', password = ''pbkdf2-4'', first_name = [],
     last_name = [], birth_date = None, country = None, email = None, is_active = True\<rparr>"

definition duet :: release where
  "duet = \<lparr>release_id = 1, title = ''Duet'', release_date = None,
     artists = {|1, 2|}, requested_artists = {||}\<rparr>"

definition duet_store :: store where
  "duet_store = \<lparr>users = [alice, bob], songs = [duet], albums = [], playlists = []\<rparr>"

text \<open>A serializer that accepts every payload as the instance to save, and a new song.\<close>

definition accept_release :: "release \<Rightarrow> requester \<Rightarrow> store \<Rightarrow> body + release" where
  "accept_release payload r st = Inr payload"

definition new_song_data :: release where
  "new_song_data = \<lparr>release_id = 0, title = ''New song'', release_date = Some 19001,
     artists = {||}, requested_artists = {||}\<rparr>"

section \<open>Lookup and update of rows\<close>

lemma find_pk_unique:
  "distinct (map pk_of rows) \<Longrightarrow> x \<in> set rows \<Longrightarrow> find (\<lambda>y. pk_of y = pk_of x) rows = Some x"
  by (induction rows) (auto simp: image_iff)

lemma find_pk_member:
  "find (\<lambda>y. pk_of y = k) rows = Some x \<Longrightarrow> x \<in> set rows \<and> pk_of x = k"
  by (induction rows) (auto split: if_splits)

lemma distinct_pks_sort_key:
  "distinct (map pk_of (sort_key f rows)) = distinct (map pk_of rows)"
proof -
  have "mset (map pk_of (sort_key f rows)) = mset (map pk_of rows)"
    by simp
  then show ?thesis
    by (rule mset_eq_imp_distinct_iff)
qed

lemma find_pk_sort_key:
  assumes "distinct (map pk_of rows)"
  shows "find (\<lambda>y. pk_of y = k) (sort_key f rows) = find (\<lambda>y. pk_of y = k) rows"
proof (cases "find (\<lambda>y. pk_of y = k) rows")
  case None
  then have "\<not> (\<exists>y. y \<in> set (sort_key f rows) \<and> pk_of y = k)"
    by (simp add: find_None_iff)
  then have "find (\<lambda>y. pk_of y = k) (sort_key f rows) = None"
    unfolding find_None_iff .
  then show ?thesis
    using None by simp
next
  case (Some x)
  then have x: "x \<in> set rows" "pk_of x = k"
    using find_pk_member by fastforce+
  have "find (\<lambda>y. pk_of y = pk_of x) (sort_key f rows) = Some x"
    by (rule find_pk_unique) (use assms x in \<open>simp_all add: distinct_pks_sort_key\<close>)
  then show ?thesis
    using Some x by simp
qed

lemma save_row_existing:
  "x \<in> set rows \<Longrightarrow> pk_of x = pk_of row \<Longrightarrow>
   save_row pk_of row rows = map (\<lambda>y. if pk_of y = pk_of row then row else y) rows"
  by (auto simp: save_row_def)

lemma find_pk_map_update:
  assumes "find (\<lambda>y. pk_of y = k) rows = Some x" and "pk_of row = k"
  shows "find (\<lambda>y. pk_of y = k) (map (\<lambda>y. if pk_of y = k then row else y) rows) = Some row"
  using assms by (induction rows) (auto split: if_splits)

lemma map_pk_map_update:
  "pk_of row = k \<Longrightarrow> map pk_of (map (\<lambda>y. if pk_of y = k then row else y) rows) = map pk_of rows"
  by (induction rows) auto

lemma find_pk_perm:
  assumes "distinct (map pk_of rows)" and "mset rows' = mset rows"
  shows "find (\<lambda>y. pk_of y = k) rows' = find (\<lambda>y. pk_of y = k) rows"
proof (cases "find (\<lambda>y. pk_of y = k) rows")
  case None
  have "set rows' = set rows"
    using assms(2) by (rule mset_eq_setD)
  with None have "\<not> (\<exists>y. y \<in> set rows' \<and> pk_of y = k)"
    by (simp add: find_None_iff)
  then have "find (\<lambda>y. pk_of y = k) rows' = None"
    unfolding find_None_iff .
  then show ?thesis
    using None by simp
next
  case (Some x)
  then have x: "x \<in> set rows" "pk_of x = k"
    using find_pk_member by fastforce+
  have s: "set rows' = set rows"
    using assms(2) by (rule mset_eq_setD)
  have "mset (map pk_of rows') = mset (map pk_of rows)"
    using assms(2) by simp
  then have d: "distinct (map pk_of rows')"
    using assms(1) mset_eq_imp_distinct_iff by blast
  have "find (\<lambda>y. pk_of y = pk_of x) rows' = Some x"
    by (rule find_pk_unique) (use d s x in simp_all)
  then show ?thesis
    using Some x by simp
qed

lemma release_queryset_find:
  assumes "distinct (map release_id (table k st))"
  shows "find (\<lambda>x. release_id x = rid) (release_queryset k st) =
         find (\<lambda>x. release_id x = rid) (table k st)"
  unfolding release_queryset_def
  by (rule find_pk_perm [OF assms]) simp

lemma table_set_table [simp]: "table k (set_table k rows st) = rows"
  by (cases k) (simp_all add: table_def set_table_def)

lemma users_set_table [simp]: "users (set_table k rows st) = users st"
  by (cases k) (simp_all add: set_table_def)

lemma playlists_set_table [simp]: "playlists (set_table k rows st) = playlists st"
  by (cases k) (simp_all add: set_table_def)

lemma table_update_release [simp]:
  "table k (update_release k rid f st) =
     map (\<lambda>x. if release_id x = rid then f x else x) (table k st)"
  by (simp add: update_release_def)

lemma find_pk_map_apply:
  assumes "find (\<lambda>y. pk_of y = k) rows = Some x" and "pk_of (f x) = k"
  shows "find (\<lambda>y. pk_of y = k) (map (\<lambda>y. if pk_of y = k then f y else y) rows) = Some (f x)"
  using assms by (induction rows) (auto split: if_splits)

lemma get_object_release:
  assumes "distinct (map release_id (table k st))"
    and "find (\<lambda>x. release_id x = rid) (table k st) = Some R"
  shows "get_object perm release_id (release_queryset k st) m r (PkInt rid) =
           (if has_object_permission perm m r R then Inr R else Inl (permission_denied r))"
  using assms by (simp add: get_object_def release_queryset_find)

lemma fold_max_bounds:
  "(a::int) \<le> fold max ks a \<and> (\<forall>k \<in> set ks. k \<le> fold max ks a)"
proof (induction ks arbitrary: a)
  case Nil
  show ?case by simp
next
  case (Cons x xs)
  have "max x a \<le> fold max xs (max x a)" and "\<forall>k \<in> set xs. k \<le> fold max xs (max x a)"
    using Cons.IH [of "max x a"] by simp_all
  then show ?case by auto
qed

lemma next_pk_fresh: "k \<in> set ks \<Longrightarrow> k < next_pk ks"
  using fold_max_bounds [of 0 ks] by (auto simp: next_pk_def)

lemma find_pk_appended:
  assumes "\<forall>x \<in> set rows. pk_of x \<noteq> k" and "pk_of new = k" and "pk_of (f new) = k"
  shows "find (\<lambda>y. pk_of y = k) (map (\<lambda>y. if pk_of y = k then f y else y) (rows @ [new])) = Some (f new)"
  using assms by (induction rows) auto

lemmas fixture_defs = test_store_def old_user_def old_user_2_def old_song_def old_song_2_def
  old_album_def old_album_2_def old_playlist_def old_playlist_2_def

lemma find_pk_filter:
  assumes "distinct (map pk_of rows)"
  shows "find (\<lambda>y. pk_of y = k) (filter P rows) =
           (case find (\<lambda>y. pk_of y = k) rows of
              None \<Rightarrow> None
            | Some x \<Rightarrow> if P x then Some x else None)"
  using assms
proof (induction rows)
  case Nil
  show ?case by simp
next
  case (Cons x xs)
  show ?case
  proof (cases "pk_of x = k")
    case True
    then have "\<not> (\<exists>y. y \<in> set (filter P xs) \<and> pk_of y = k)"
      using Cons.prems by (auto simp: image_iff)
    then have "find (\<lambda>y. pk_of y = k) (filter P xs) = None"
      unfolding find_None_iff .
    then show ?thesis
      using True by simp
  next
    case False
    then show ?thesis
      using Cons by simp
  qed
qed

lemma find_pk_append_fresh:
  assumes "\<forall>x \<in> set rows. pk_of x \<noteq> k" and "pk_of new = k"
  shows "find (\<lambda>y. pk_of y = k) (rows @ [new]) = Some new"
  using assms by (induction rows) auto

lemma map_field_map_update:
  assumes "\<forall>y \<in> set rows. pk_of y = k \<longrightarrow> g y = g row"
  shows "map g (map (\<lambda>y. if pk_of y = k then row else y) rows) = map g rows"
  using assms by (induction rows) auto

lemma playlist_queryset_find:
  assumes "distinct (map playlist_id (playlists st))"
  shows "\<exists>queryset. playlist_get_queryset (AuthUser u) st = Some queryset \<and>
           find (\<lambda>p. playlist_id p = pid) queryset =
             (case find (\<lambda>p. playlist_id p = pid) (playlists st) of
                None \<Rightarrow> None
              | Some p \<Rightarrow> if owner p = u then Some p else None)"
proof -
  let ?own = "filter (\<lambda>p. owner p = u) (playlists st)"
  have d: "distinct (map playlist_id ?own)"
    using assms by (rule distinct_map_filter)
  have "find (\<lambda>p. playlist_id p = pid) (rev (sort_key created_at (rev ?own))) =
          find (\<lambda>p. playlist_id p = pid) ?own"
    by (rule find_pk_perm [OF d]) simp
  then show ?thesis
    using find_pk_filter [OF assms, of pid "\<lambda>p. owner p = u"]
    by (simp add: playlist_get_queryset_def)
qed

lemma sorted_desc_filter:
  "sorted (rev (map f (filter P (rev (sort_key f rows)))))"
proof -
  have "rev (map f (filter P (rev (sort_key f rows)))) = map f (filter P (sort_key f rows))"
    by (simp add: rev_map rev_filter)
  then show ?thesis
    by (simp add: sorted_filter)
qed

lemmas search_defs = user_list_def release_list_def playlist_list_def user_queryset_def
  release_queryset_def playlist_get_queryset_def search_matches_def user_search_fields_def
  release_search_rows_def icontains_def ascii_lower_def table_def

lemma joined_rows_match:
  "(\<exists>row \<in> set (map (\<lambda>u. [T, username u]) us). search_matches terms row) \<longleftrightarrow>
     (\<exists>u \<in> set us. \<forall>t \<in> set terms. icontains t T \<or> icontains t (username u))"
  by (simp add: search_matches_def)

lemma release_search_rows_match:
  "(\<exists>row \<in> set (release_search_rows st x). search_matches terms row) \<longleftrightarrow>
     (\<forall>t \<in> set terms. icontains t (title x)) \<or>
     (\<exists>a \<in> set (users st). user_id a |\<in>| artists x \<and>
        (\<forall>t \<in> set terms. icontains t (title x) \<or> icontains t (username a)))"
proof (cases "filter (\<lambda>u. user_id u |\<in>| artists x) (users st)")
  case Nil
  then have "\<forall>a \<in> set (users st). user_id a |\<notin>| artists x"
    by (simp add: filter_empty_conv)
  then show ?thesis
    using Nil by (auto simp: release_search_rows_def search_matches_def)
next
  case (Cons a as)
  have s: "set (a # as) = {u \<in> set (users st). user_id u |\<in>| artists x}"
    using Cons [symmetric] by simp
  have "(\<exists>row \<in> set (release_search_rows st x). search_matches terms row) \<longleftrightarrow>
          (\<exists>u \<in> set (a # as). \<forall>t \<in> set terms. icontains t (title x) \<or> icontains t (username u))"
    using joined_rows_match [of "title x" "a # as" terms]
    by (simp only: release_search_rows_def Cons list.case)
  also have "\<dots> \<longleftrightarrow> (\<exists>u \<in> set (users st). user_id u |\<in>| artists x \<and>
          (\<forall>t \<in> set terms. icontains t (title x) \<or> icontains t (username u)))"
    unfolding s by blast
  also have "\<dots> \<longleftrightarrow> (\<forall>t \<in> set terms. icontains t (title x)) \<or>
     (\<exists>u \<in> set (users st). user_id u |\<in>| artists x \<and>
        (\<forall>t \<in> set terms. icontains t (title x) \<or> icontains t (username u)))"
  proof -
    have "a \<in> set (users st) \<and> user_id a |\<in>| artists x"
      using s by auto
    then show ?thesis by blast
  qed
  finally show ?thesis .
qed

lemmas duet_defs = duet_store_def alice_def bob_def duet_def

lemma resolve_token_user:
  assumes "find (\<lambda>u. user_id u = k) (users st) = Some U"
  shows "resolve_token st (BearerToken k) =
           (if is_active U then Inr (AuthUser k)
            else Inl (authentication_failed ''User inactive or deleted.''))"
  using assms by (simp add: resolve_token_def)

section \<open>Soft delete of a user\<close>

lemma user_destroy_own:
  assumes "distinct (map user_id (users st))"
    and "find (\<lambda>u. user_id u = k) (users st) = Some U"
  shows "UserViewSet_destroy (AuthUser k) (PkInt k) st =
           (Response 204 NoData,
            st\<lparr>users := map (\<lambda>u. if user_id u = k then U\<lparr>is_active := False\<rparr> else u) (users st)\<rparr>)"
proof -
  have U: "U \<in> set (users st)" "user_id U = k"
    using assms(2) find_pk_member by fastforce+
  have q: "find (\<lambda>u. user_id u = k) (user_queryset st) = Some U"
    using assms by (simp add: user_queryset_def find_pk_sort_key)
  have s: "save_row user_id (U\<lparr>is_active := False\<rparr>) (users st) =
             map (\<lambda>u. if user_id u = k then U\<lparr>is_active := False\<rparr> else u) (users st)"
    using save_row_existing [of U "users st" user_id "U\<lparr>is_active := False\<rparr>"] U by simp
  show ?thesis
    using q s U
    by (simp add: UserViewSet_destroy_def user_destroy_def get_object_def
        IsUserOrReadOnly_def)
qed

text \<open>
  C8: a DELETE by user \<open>U\<close> on the detail endpoint of \<open>U\<close> answers 204 with no content and
  is a soft delete: the row of \<open>U\<close> stays, with the active flag cleared and every other field
  as it was; the number of user rows and every other row and table are unchanged.
\<close>

theorem soft_delete_user:
  assumes "distinct (map user_id (users st))"
    and "find (\<lambda>u. user_id u = k) (users st) = Some U"
    and "UserViewSet_destroy (AuthUser k) (PkInt k) st = (resp, st')"
  shows "resp = Response 204 NoData \<and>
         length (users st') = length (users st) \<and>
         map user_id (users st') = map user_id (users st) \<and>
         find (\<lambda>u. user_id u = k) (users st') = Some (U\<lparr>is_active := False\<rparr>) \<and>
         users st' = map (\<lambda>u. if user_id u = k then U\<lparr>is_active := False\<rparr> else u) (users st) \<and>
         songs st' = songs st \<and> albums st' = albums st \<and> playlists st' = playlists st"
proof -
  let ?U' = "U\<lparr>is_active := False\<rparr>"
  have U: "user_id ?U' = k"
    using assms(2) find_pk_member by fastforce
  have eq: "resp = Response 204 NoData"
    "st' = st\<lparr>users := map (\<lambda>u. if user_id u = k then ?U' else u) (users st)\<rparr>"
    using user_destroy_own [OF assms(1,2)] assms(3) by simp_all
  have f: "find (\<lambda>u. user_id u = k) (users st') = Some ?U'"
    using find_pk_map_update [OF assms(2) U] eq(2) by simp
  have m: "map user_id (users st') = map user_id (users st)"
    using map_pk_map_update [of user_id ?U' k "users st"] U eq(2) by simp
  show ?thesis
    using eq f m by simp
qed

theorem soft_delete_user_witness:
  "distinct (map user_id (users test_store)) \<and>
   find (\<lambda>u. user_id u = 1) (users test_store) = Some old_user \<and>
   fst (UserViewSet_destroy (AuthUser 1) (PkInt 1) test_store) = Response 204 NoData \<and>
   users (snd (UserViewSet_destroy (AuthUser 1) (PkInt 1) test_store)) =
     [old_user\<lparr>is_active := False\<rparr>, old_user_2]"
proof -
  have d: "distinct (map user_id (users test_store))"
    by (simp add: test_store_def old_user_def old_user_2_def)
  have f: "find (\<lambda>u. user_id u = 1) (users test_store) = Some old_user"
    by (simp add: test_store_def old_user_def old_user_2_def)
  obtain resp st' where r: "UserViewSet_destroy (AuthUser 1) (PkInt 1) test_store = (resp, st')"
    by (cases "UserViewSet_destroy (AuthUser 1) (PkInt 1) test_store")
  have u: "users test_store = [old_user, old_user_2]" "user_id old_user = 1" "user_id old_user_2 = 2"
    by (simp_all add: test_store_def old_user_def old_user_2_def)
  show ?thesis
    using soft_delete_user [OF d f r] d f r u by simp
qed

section \<open>The artist workflow of a release\<close>

text \<open>
  C1, as amended: for a release \<open>R\<close> and a user \<open>C\<close> among its requested artists, a POST to
  \<^verbatim>\<open>confirm_current_user_as_artist\<close> by \<open>C\<close> answers 200 with the updated release and
  moves \<open>C\<close> from the requested artists to the artists in one step. The number of requested
  artists goes down by one; the number of artists goes up by one when \<open>C\<close> was not an artist
  of \<open>R\<close> before and stays as it was otherwise. A user who is not among the requested
  artists is refused with 403, a request without identity with 401, and nothing is written.
\<close>

theorem confirm_requested_artist:
  assumes "distinct (map release_id (table k st))"
    and "find (\<lambda>x. release_id x = rid) (table k st) = Some R"
    and "R' = R\<lparr>artists := finsert C (artists R), requested_artists := requested_artists R |-| {|C|}\<rparr>"
  shows "(C |\<in>| requested_artists R \<longrightarrow>
            fst (ReleaseViewSet_confirm_current_user_as_artist k POST (AuthUser C) (PkInt rid) st)
              = Response 200 (ReleaseData R') \<and>
            find (\<lambda>x. release_id x = rid)
              (table k (snd (ReleaseViewSet_confirm_current_user_as_artist k POST (AuthUser C) (PkInt rid) st)))
              = Some R' \<and>
            map release_id (table k (snd (ReleaseViewSet_confirm_current_user_as_artist k POST (AuthUser C) (PkInt rid) st)))
              = map release_id (table k st) \<and>
            fcard (requested_artists R') + 1 = fcard (requested_artists R) \<and>
            fcard (artists R') = (if C |\<in>| artists R then fcard (artists R) else fcard (artists R) + 1)) \<and>
         (C |\<notin>| requested_artists R \<longrightarrow>
            ReleaseViewSet_confirm_current_user_as_artist k POST (AuthUser C) (PkInt rid) st = (forbidden, st)) \<and>
         ReleaseViewSet_confirm_current_user_as_artist k POST AnonymousUser (PkInt rid) st = (not_authenticated, st)"
proof -
  let ?f = "\<lambda>x. x\<lparr>artists := finsert C (artists x), requested_artists := requested_artists x |-| {|C|}\<rparr>"
  have rid: "release_id R = rid"
    using assms(2) find_pk_member by fastforce
  have denied: "C |\<notin>| requested_artists R \<longrightarrow>
      ReleaseViewSet_confirm_current_user_as_artist k POST (AuthUser C) (PkInt rid) st = (forbidden, st)"
    by (simp add: ReleaseViewSet_confirm_current_user_as_artist_def confirm_current_user_as_artist_def
        get_object_release [OF assms(1,2)] IsRequestedArtist_def permission_denied_def)
  have anon: "ReleaseViewSet_confirm_current_user_as_artist k POST AnonymousUser (PkInt rid) st = (not_authenticated, st)"
    by (simp add: ReleaseViewSet_confirm_current_user_as_artist_def confirm_current_user_as_artist_def
        get_object_release [OF assms(1,2)] IsRequestedArtist_def permission_denied_def)
  have ok: "ReleaseViewSet_confirm_current_user_as_artist k POST (AuthUser C) (PkInt rid) st
      = (Response 200 (ReleaseData R'), update_release k rid ?f st)" if "C |\<in>| requested_artists R"
    using that rid assms(3)
    by (simp add: ReleaseViewSet_confirm_current_user_as_artist_def confirm_current_user_as_artist_def
        get_object_release [OF assms(1,2)] IsRequestedArtist_def confirm_user_as_artist_def)
  have f: "find (\<lambda>x. release_id x = rid) (table k (update_release k rid ?f st)) = Some R'"
    using find_pk_map_apply [OF assms(2), of ?f] rid assms(3) by simp
  have m: "map release_id (table k (update_release k rid ?f st)) = map release_id (table k st)"
    by (simp add: comp_def if_distrib cong: if_cong)
  have c1: "fcard (requested_artists R') + 1 = fcard (requested_artists R)" if "C |\<in>| requested_artists R"
    using that assms(3) fcard_Suc_fminus1 [of C "requested_artists R"] by simp
  have c2: "fcard (artists R') = (if C |\<in>| artists R then fcard (artists R) else fcard (artists R) + 1)"
    using assms(3) by (simp add: fcard_finsert_if)
  show ?thesis
    using denied anon ok f m c1 c2 by simp
qed

theorem confirm_requested_artist_witness:
  "distinct (map release_id (table Song requested_store)) \<and>
   2 |\<in>| requested_artists (old_song\<lparr>requested_artists := {|2|}\<rparr>) \<and>
   fst (ReleaseViewSet_confirm_current_user_as_artist Song POST (AuthUser 2) (PkInt 1) requested_store)
     = Response 200 (ReleaseData (old_song\<lparr>artists := {|2, 1|}, requested_artists := {||}\<rparr>)) \<and>
   fcard (artists (old_song\<lparr>artists := {|2, 1|}, requested_artists := {||}\<rparr>)) = fcard (artists old_song) + 1"
proof -
  have d: "distinct (map release_id (table Song requested_store))"
    by (simp add: table_def requested_store_def fixture_defs)
  have f: "find (\<lambda>x. release_id x = 1) (table Song requested_store)
             = Some (old_song\<lparr>requested_artists := {|2|}\<rparr>)"
    by (simp add: table_def requested_store_def fixture_defs)
  have e: "old_song\<lparr>artists := {|2, 1|}, requested_artists := {||}\<rparr> =
           (old_song\<lparr>requested_artists := {|2|}\<rparr>)
             \<lparr>artists := finsert 2 (artists (old_song\<lparr>requested_artists := {|2|}\<rparr>)),
              requested_artists := requested_artists (old_song\<lparr>requested_artists := {|2|}\<rparr>) |-| {|2|}\<rparr>"
    by (simp add: old_song_def)
  have a: "artists old_song = {|1|}"
    by (simp add: old_song_def)
  show ?thesis
    using confirm_requested_artist [OF d f e] d a by simp
qed

text \<open>
  C1 as stated fails where \<open>C\<close> is already an artist: \<open>old_user\<close>, the artist of
  \<open>old_song\<close>, requests \<open>old_user\<close> and confirms. The answer is 200 and the song has one
  artist before and after.
\<close>

theorem confirm_artist_count_counterexample:
  "snd (ReleaseViewSet_manage_requested_artists Song POST (AuthUser 1) (PkInt 1) (Some (PkInt 1)) test_store)
     = self_requested_store \<and>
   songs self_requested_store = [old_song\<lparr>requested_artists := {|1|}\<rparr>, old_song_2] \<and>
   1 |\<in>| requested_artists (old_song\<lparr>requested_artists := {|1|}\<rparr>) \<and>
   fcard (artists (old_song\<lparr>requested_artists := {|1|}\<rparr>)) = 1 \<and>
   ReleaseViewSet_confirm_current_user_as_artist Song POST (AuthUser 1) (PkInt 1) self_requested_store
     = (Response 200 (ReleaseData old_song), test_store) \<and>
   songs test_store = [old_song, old_song_2] \<and>
   fcard (artists old_song) = 1"
  by (simp add: ReleaseViewSet_manage_requested_artists_def manage_requested_artists_def
      ReleaseViewSet_confirm_current_user_as_artist_def confirm_current_user_as_artist_def
      IsArtistOrReadOnly_def IsRequestedArtist_def safe_method_def
      get_object_def get_object_or_404_def release_queryset_def table_def set_table_def
      add_artist_to_requested_def confirm_user_as_artist_def update_release_def
      self_requested_store_def fixture_defs fcard_finsert_if)

text \<open>
  C4, as amended: a requested user \<open>C\<close> who is not an artist of \<open>R\<close> cannot withdraw the
  request: the DELETE to \<^verbatim>\<open>manage_requested_artists\<close> by \<open>C\<close> with \<open>artist_id = C\<close> is
  refused with 403 and nothing is written. The same DELETE by a current artist \<open>A\<close> of \<open>R\<close>
  answers 200 and removes \<open>C\<close> from the requested artists.
\<close>

theorem candidate_cannot_withdraw:
  assumes "distinct (map release_id (table k st))"
    and "find (\<lambda>x. release_id x = rid) (table k st) = Some R"
    and "find (\<lambda>u. user_id u = C) (users st) = Some U"
    and "R' = R\<lparr>requested_artists := requested_artists R |-| {|C|}\<rparr>"
  shows "(C |\<notin>| artists R \<longrightarrow>
            ReleaseViewSet_manage_requested_artists k DELETE (AuthUser C) (PkInt rid) (Some (PkInt C)) st
              = (forbidden, st)) \<and>
         (A |\<in>| artists R \<longrightarrow>
            fst (ReleaseViewSet_manage_requested_artists k DELETE (AuthUser A) (PkInt rid) (Some (PkInt C)) st)
              = Response 200 (ReleaseData R') \<and>
            find (\<lambda>x. release_id x = rid)
              (table k (snd (ReleaseViewSet_manage_requested_artists k DELETE (AuthUser A) (PkInt rid) (Some (PkInt C)) st)))
              = Some R' \<and>
            C |\<notin>| requested_artists R')"
proof -
  let ?f = "\<lambda>x. x\<lparr>requested_artists := requested_artists x |-| {|C|}\<rparr>"
  have rid: "release_id R = rid"
    using assms(2) find_pk_member by fastforce
  have C: "user_id U = C"
    using assms(3) find_pk_member by fastforce
  have denied: "C |\<notin>| artists R \<longrightarrow>
      ReleaseViewSet_manage_requested_artists k DELETE (AuthUser C) (PkInt rid) (Some (PkInt C)) st = (forbidden, st)"
    by (simp add: ReleaseViewSet_manage_requested_artists_def manage_requested_artists_def
        get_object_release [OF assms(1,2)] IsArtistOrReadOnly_def permission_denied_def safe_method_def)
  have ok: "ReleaseViewSet_manage_requested_artists k DELETE (AuthUser A) (PkInt rid) (Some (PkInt C)) st
      = (Response 200 (ReleaseData R'), update_release k rid ?f st)" if "A |\<in>| artists R"
    using that rid C assms(3,4)
    by (simp add: ReleaseViewSet_manage_requested_artists_def manage_requested_artists_def
        get_object_release [OF assms(1,2)] IsArtistOrReadOnly_def safe_method_def
        get_object_or_404_def remove_artist_from_requested_def)
  have f: "find (\<lambda>x. release_id x = rid) (table k (update_release k rid ?f st)) = Some R'"
    using find_pk_map_apply [OF assms(2), of ?f] rid assms(4) by simp
  show ?thesis
    using denied ok f assms(4) by simp
qed

theorem candidate_cannot_withdraw_witness:
  "distinct (map release_id (table Song requested_store)) \<and>
   find (\<lambda>u. user_id u = 2) (users requested_store) = Some old_user_2 \<and>
   ReleaseViewSet_manage_requested_artists Song DELETE (AuthUser 2) (PkInt 1) (Some (PkInt 2)) requested_store
     = (forbidden, requested_store) \<and>
   fst (ReleaseViewSet_manage_requested_artists Song DELETE (AuthUser 1) (PkInt 1) (Some (PkInt 2)) requested_store)
     = Response 200 (ReleaseData old_song)"
proof -
  have d: "distinct (map release_id (table Song requested_store))"
    by (simp add: table_def requested_store_def fixture_defs)
  have f: "find (\<lambda>x. release_id x = 1) (table Song requested_store)
             = Some (old_song\<lparr>requested_artists := {|2|}\<rparr>)"
    by (simp add: table_def requested_store_def fixture_defs)
  have u: "find (\<lambda>u. user_id u = 2) (users requested_store) = Some old_user_2"
    by (simp add: requested_store_def fixture_defs)
  have e: "old_song = (old_song\<lparr>requested_artists := {|2|}\<rparr>)
             \<lparr>requested_artists := requested_artists (old_song\<lparr>requested_artists := {|2|}\<rparr>) |-| {|2|}\<rparr>"
    by (simp add: old_song_def)
  have a: "artists old_song = {|1|}"
    by (simp add: old_song_def)
  show ?thesis
    using candidate_cannot_withdraw [OF d f u e, of 1] d u a by simp
qed

text \<open>
  C4 as stated fails on the fixture: \<open>old_user\<close> requests \<open>old_user_2\<close> for
  \<open>old_song\<close>, and the DELETE by \<open>old_user_2\<close> is answered 403 with the request still there.
\<close>

theorem candidate_cannot_withdraw_counterexample:
  "snd (ReleaseViewSet_manage_requested_artists Song POST (AuthUser 1) (PkInt 1) (Some (PkInt 2)) test_store)
     = requested_store \<and>
   songs requested_store = [old_song\<lparr>requested_artists := {|2|}\<rparr>, old_song_2] \<and>
   2 |\<in>| requested_artists (old_song\<lparr>requested_artists := {|2|}\<rparr>) \<and>
   2 |\<notin>| artists (old_song\<lparr>requested_artists := {|2|}\<rparr>) \<and>
   ReleaseViewSet_manage_requested_artists Song DELETE (AuthUser 2) (PkInt 1) (Some (PkInt 2)) requested_store
     = (Response 403 (ErrorDetail ''detail'' ''You do not have permission to perform this action.''),
        requested_store)"
  by (simp add: ReleaseViewSet_manage_requested_artists_def manage_requested_artists_def
      IsArtistOrReadOnly_def safe_method_def permission_denied_def forbidden_def
      get_object_def get_object_or_404_def release_queryset_def table_def set_table_def
      add_artist_to_requested_def update_release_def
      requested_store_def fixture_defs)

text \<open>
  C5: on an existing release that the permission class lets the requester manage, a POST or
  DELETE to \<^verbatim>\<open>manage_requested_artists\<close> without \<open>artist_id\<close> answers 400 with the
  field keyed to "This field is required.", and one whose \<open>artist_id\<close> is the key of no user
  answers 404 "Not found."; \<^verbatim>\<open>manage_songs\<close> does the same with \<open>song_id\<close> on a
  playlist. In each case the store is returned as it was, whatever the helpers are: they
  are not called.
\<close>

theorem missing_or_unknown_id:
  assumes "m = POST \<or> m = DELETE"
  shows "(has_permission perm m r \<and>
          get_object perm release_id (release_queryset k st) m r pk = Inr entity \<longrightarrow>
            manage_requested_artists perm add_helper remove_helper k m r pk None st
              = (Response 400 (ErrorDetail ''artist_id'' ''This field is required.''), st) \<and>
            (find (\<lambda>u. user_id u = a) (users st) = None \<longrightarrow>
               manage_requested_artists perm add_helper remove_helper k m r pk (Some (PkInt a)) st
                 = (not_found, st))) \<and>
         (has_permission pperm m r \<and> playlist_get_queryset r st = Some queryset \<and>
          get_object pperm playlist_id queryset m r ppk = Inr p \<longrightarrow>
            manage_songs pperm add_song remove_song m r ppk None st
              = (Response 400 (ErrorDetail ''song_id'' ''This field is required.''), st) \<and>
            (find (\<lambda>x. release_id x = s) (songs st) = None \<longrightarrow>
               manage_songs pperm add_song remove_song m r ppk (Some (PkInt s)) st
                 = (not_found, st)))"
  using assms
  by (auto simp: manage_requested_artists_def manage_songs_def get_object_or_404_def)

theorem missing_or_unknown_id_witness:
  "ReleaseViewSet_manage_requested_artists Song POST (AuthUser 1) (PkInt 1) None test_store
     = (Response 400 (ErrorDetail ''artist_id'' ''This field is required.''), test_store) \<and>
   ReleaseViewSet_manage_requested_artists Song POST (AuthUser 1) (PkInt 1) (Some (PkInt 3)) test_store
     = (not_found, test_store) \<and>
   PlaylistViewSet_manage_songs POST (AuthUser 1) (PkInt 1) None test_store
     = (Response 400 (ErrorDetail ''song_id'' ''This field is required.''), test_store) \<and>
   PlaylistViewSet_manage_songs POST (AuthUser 1) (PkInt 1) (Some (PkInt 3)) test_store
     = (not_found, test_store)"
proof -
  have h1: "has_permission IsArtistOrReadOnly POST (AuthUser 1)"
    by (simp add: IsArtistOrReadOnly_def)
  have h2: "get_object IsArtistOrReadOnly release_id (release_queryset Song test_store) POST (AuthUser 1) (PkInt 1)
              = Inr old_song"
    by (simp add: get_object_def release_queryset_def table_def IsArtistOrReadOnly_def fixture_defs)
  have h3: "find (\<lambda>u. user_id u = 3) (users test_store) = None"
    by (simp add: fixture_defs)
  have h4: "has_permission IsPlaylistOwner POST (AuthUser 1)"
    by (simp add: IsPlaylistOwner_def)
  have h5: "playlist_get_queryset (AuthUser 1) test_store = Some [old_playlist]"
    by (simp add: playlist_get_queryset_def fixture_defs)
  have h6: "get_object IsPlaylistOwner playlist_id [old_playlist] POST (AuthUser 1) (PkInt 1) = Inr old_playlist"
    by (simp add: get_object_def IsPlaylistOwner_def fixture_defs)
  have h7: "find (\<lambda>x. release_id x = 3) (songs test_store) = None"
    by (simp add: fixture_defs)
  show ?thesis
    using missing_or_unknown_id [where m = POST and perm = IsArtistOrReadOnly and r = "AuthUser 1"
        and k = Song and st = test_store and pk = "PkInt 1" and entity = old_song and a = 3
        and add_helper = add_artist_to_requested and remove_helper = remove_artist_from_requested
        and pperm = IsPlaylistOwner and queryset = "[old_playlist]" and ppk = "PkInt 1"
        and p = old_playlist and s = 3
        and add_song = add_song_to_playlist and remove_song = remove_song_from_playlist]
      h1 h2 h3 h4 h5 h6 h7
    by (simp add: ReleaseViewSet_manage_requested_artists_def PlaylistViewSet_manage_songs_def)
qed

text \<open>
  C6: for a release \<open>R\<close> whose only artist is \<open>A\<close>, a DELETE to
  \<^verbatim>\<open>remove_current_user_as_artist\<close> by \<open>A\<close> answers 200 and leaves \<open>R\<close> in its table with
  no artist.
\<close>

theorem last_artist_leaves:
  assumes "distinct (map release_id (table k st))"
    and "find (\<lambda>x. release_id x = rid) (table k st) = Some R"
    and "artists R = {|A|}"
  shows "fst (ReleaseViewSet_remove_current_user_as_artist k DELETE (AuthUser A) (PkInt rid) st)
           = Response 200 (ReleaseData (R\<lparr>artists := {||}\<rparr>)) \<and>
         find (\<lambda>x. release_id x = rid)
           (table k (snd (ReleaseViewSet_remove_current_user_as_artist k DELETE (AuthUser A) (PkInt rid) st)))
           = Some (R\<lparr>artists := {||}\<rparr>) \<and>
         map release_id (table k (snd (ReleaseViewSet_remove_current_user_as_artist k DELETE (AuthUser A) (PkInt rid) st)))
           = map release_id (table k st)"
proof -
  let ?f = "\<lambda>x. x\<lparr>artists := artists x |-| {|A|}\<rparr>"
  have rid: "release_id R = rid"
    using assms(2) find_pk_member by fastforce
  have ok: "ReleaseViewSet_remove_current_user_as_artist k DELETE (AuthUser A) (PkInt rid) st
      = (Response 200 (ReleaseData (R\<lparr>artists := {||}\<rparr>)), update_release k rid ?f st)"
    using rid assms(3)
    by (simp add: ReleaseViewSet_remove_current_user_as_artist_def remove_current_user_as_artist_def
        get_object_release [OF assms(1,2)] IsArtistOrReadOnly_def remove_user_as_artist_def)
  have f: "find (\<lambda>x. release_id x = rid) (table k (update_release k rid ?f st)) = Some (R\<lparr>artists := {||}\<rparr>)"
    using find_pk_map_apply [OF assms(2), of ?f] rid assms(3) by simp
  have m: "map release_id (table k (update_release k rid ?f st)) = map release_id (table k st)"
    by (simp add: comp_def if_distrib cong: if_cong)
  show ?thesis
    using ok f m by simp
qed

theorem last_artist_leaves_witness:
  "distinct (map release_id (table Song test_store)) \<and>
   find (\<lambda>x. release_id x = 1) (table Song test_store) = Some old_song \<and>
   artists old_song = {|1|} \<and>
   fst (ReleaseViewSet_remove_current_user_as_artist Song DELETE (AuthUser 1) (PkInt 1) test_store)
     = Response 200 (ReleaseData (old_song\<lparr>artists := {||}\<rparr>)) \<and>
   map release_id (table Song (snd (ReleaseViewSet_remove_current_user_as_artist Song DELETE (AuthUser 1) (PkInt 1) test_store)))
     = [1, 2]"
proof -
  have d: "distinct (map release_id (table Song test_store))"
    by (simp add: table_def fixture_defs)
  have f: "find (\<lambda>x. release_id x = 1) (table Song test_store) = Some old_song"
    by (simp add: table_def fixture_defs)
  have a: "artists old_song = {|1|}"
    by (simp add: old_song_def)
  have m: "map release_id (table Song test_store) = [1, 2]"
    by (simp add: table_def fixture_defs)
  show ?thesis
    using last_artist_leaves [OF d f a] d f a m by simp
qed

text \<open>
  C7: a create of a Song or Album by the authenticated user \<open>u\<close> that answers 201 has
  stored a release whose artists contain \<open>u\<close>, whatever artists the validated data hold.
\<close>

theorem creator_is_artist:
  assumes "release_create perm validate k (AuthUser u) payload st = (resp, st')"
    and "status_code resp = 201"
  shows "\<exists>v e. validate payload (AuthUser u) st = Inr v \<and>
           e = v\<lparr>release_id := next_pk (map release_id (table k st)), artists := finsert u (artists v)\<rparr> \<and>
           resp = Response 201 (ReleaseData e) \<and>
           find (\<lambda>x. release_id x = release_id e) (table k st') = Some e \<and>
           u |\<in>| artists e \<and>
           length (table k st') = length (table k st) + 1"
proof -
  let ?n = "next_pk (map release_id (table k st))"
  from assms obtain v where v: "validate payload (AuthUser u) st = Inr v"
    by (auto simp: release_create_def permission_denied_def forbidden_def split: if_splits sum.splits)
  let ?inst = "v\<lparr>release_id := ?n\<rparr>"
  let ?f = "\<lambda>x. x\<lparr>artists := finsert u (artists x)\<rparr>"
  let ?e = "v\<lparr>release_id := ?n, artists := finsert u (artists v)\<rparr>"
  have p: "has_permission perm POST (AuthUser u)"
    using assms by (auto simp: release_create_def permission_denied_def forbidden_def split: if_splits)
  have r: "resp = Response 201 (ReleaseData ?e)"
    and s: "st' = update_release k ?n ?f (set_table k (table k st @ [?inst]) st)"
    using assms(1) v p by (simp_all add: release_create_def release_perform_create_def Let_def)
  have fresh: "\<forall>x \<in> set (table k st). release_id x \<noteq> ?n"
    using next_pk_fresh [of _ "map release_id (table k st)"] by fastforce
  have f: "find (\<lambda>x. release_id x = ?n) (table k st') = Some ?e"
    using find_pk_appended [OF fresh, of ?inst ?f] s by simp
  show ?thesis
    using v r f s by simp
qed

theorem creator_is_artist_witness:
  "release_create IsArtistOrReadOnly accept_release Song (AuthUser 1) new_song_data test_store
     = (Response 201 (ReleaseData (new_song_data\<lparr>release_id := 3, artists := {|1|}\<rparr>)),
        test_store\<lparr>songs := [old_song, old_song_2, new_song_data\<lparr>release_id := 3, artists := {|1|}\<rparr>]\<rparr>) \<and>
   1 |\<in>| artists (new_song_data\<lparr>release_id := 3, artists := {|1|}\<rparr>) \<and>
   length (table Song (test_store\<lparr>songs := [old_song, old_song_2, new_song_data\<lparr>release_id := 3, artists := {|1|}\<rparr>]\<rparr>))
     = length (table Song test_store) + 1"
proof -
  have c: "release_create IsArtistOrReadOnly accept_release Song (AuthUser 1) new_song_data test_store
     = (Response 201 (ReleaseData (new_song_data\<lparr>release_id := 3, artists := {|1|}\<rparr>)),
        test_store\<lparr>songs := [old_song, old_song_2, new_song_data\<lparr>release_id := 3, artists := {|1|}\<rparr>]\<rparr>)"
    by (simp add: release_create_def release_perform_create_def IsArtistOrReadOnly_def accept_release_def
        update_release_def table_def set_table_def next_pk_def new_song_data_def fixture_defs)
  have s: "status_code (Response 201 (ReleaseData (new_song_data\<lparr>release_id := 3, artists := {|1|}\<rparr>))) = 201"
    by simp
  show ?thesis
    using creator_is_artist [OF c s] c by auto
qed

section \<open>Playlists\<close>

text \<open>
  C2: a playlist \<open>P\<close> owned by \<open>X\<close> is outside the queryset of an authenticated user
  \<open>Y \<noteq> X\<close>, so every GET, PUT, PATCH and DELETE by \<open>Y\<close> on \<open>P\<close> answers 404 with detail
  "Not found.", never 403, and writes nothing.
\<close>

theorem foreign_playlist_not_found:
  assumes "distinct (map playlist_id (playlists st))"
    and "find (\<lambda>p. playlist_id p = pid) (playlists st) = Some P"
    and "owner P \<noteq> Y"
    and "m = GET \<or> m = PUT \<or> m = PATCH \<or> m = DELETE"
  shows "PlaylistViewSet_detail m (AuthUser Y) (PkInt pid) payload st
           = (Response 404 (ErrorDetail ''detail'' ''Not found.''), st)"
proof -
  obtain queryset where q: "playlist_get_queryset (AuthUser Y) st = Some queryset"
    and f: "find (\<lambda>p. playlist_id p = pid) queryset = None"
    using playlist_queryset_find [OF assms(1), of Y pid] assms(2,3) by auto
  show ?thesis
    using assms(4) q f
    by (auto simp: PlaylistViewSet_detail_def playlist_detail_def IsPlaylistOwner_def
        get_object_def not_found_def)
qed

theorem foreign_playlist_not_found_witness:
  "distinct (map playlist_id (playlists test_store)) \<and>
   find (\<lambda>p. playlist_id p = 2) (playlists test_store) = Some old_playlist_2 \<and>
   owner old_playlist_2 = 2 \<and>
   PlaylistViewSet_detail PATCH (AuthUser 1) (PkInt 2) \<lparr>payload_title = None, payload_owner = None\<rparr> test_store
     = (Response 404 (ErrorDetail ''detail'' ''Not found.''), test_store) \<and>
   PlaylistViewSet_detail DELETE (AuthUser 1) (PkInt 2) \<lparr>payload_title = None, payload_owner = None\<rparr> test_store
     = (Response 404 (ErrorDetail ''detail'' ''Not found.''), test_store)"
proof -
  have d: "distinct (map playlist_id (playlists test_store))"
    by (simp add: fixture_defs)
  have f: "find (\<lambda>p. playlist_id p = 2) (playlists test_store) = Some old_playlist_2"
    by (simp add: fixture_defs)
  have o: "owner old_playlist_2 = 2"
    by (simp add: old_playlist_2_def)
  have n: "owner old_playlist_2 \<noteq> 1"
    by (simp add: old_playlist_2_def)
  show ?thesis
    using foreign_playlist_not_found [OF d f n, of PATCH]
      foreign_playlist_not_found [OF d f n, of DELETE] d f o by simp
qed

text \<open>
  C3, as amended: a create that answers 201 stores the caller as the owner, whatever owner
  the validated data hold and whatever the store holds. A PUT or PATCH by the owner that
  supplies an owner value and whose title passes validation (a PUT carries a title, and a
  title that is supplied is not empty) answers 200 with the playlist under its original
  owner: the supplied owner is discarded, the title is applied, and the owner of every
  stored playlist is as before.
\<close>

theorem playlist_owner_fixed:
  "(playlist_create perm validate now (AuthUser u) new_data s = (Response 201 created, s') \<longrightarrow>
      (\<exists>p. created = PlaylistData p \<and> owner p = u \<and>
           find (\<lambda>x. playlist_id x = playlist_id p) (playlists s') = Some p)) \<and>
   (distinct (map playlist_id (playlists st)) \<and>
    find (\<lambda>p. playlist_id p = pid) (playlists st) = Some P \<and>
    owner P = X \<and>
    (m = PUT \<or> m = PATCH) \<and>
    payload_owner payload = Some supplied \<and>
    (payload_title payload = None \<and> m = PATCH \<and> P' = P \<or>
     (\<exists>t. payload_title payload = Some t \<and> t \<noteq> [] \<and> P' = P\<lparr>playlist_title := t\<rparr>)) \<longrightarrow>
      fst (PlaylistViewSet_detail m (AuthUser X) (PkInt pid) payload st) = Response 200 (PlaylistData P') \<and>
      owner P' = X \<and>
      find (\<lambda>p. playlist_id p = pid) (playlists (snd (PlaylistViewSet_detail m (AuthUser X) (PkInt pid) payload st)))
        = Some P' \<and>
      map owner (playlists (snd (PlaylistViewSet_detail m (AuthUser X) (PkInt pid) payload st)))
        = map owner (playlists st))"
proof -
  have create: "playlist_create perm validate now (AuthUser u) new_data s = (Response 201 created, s') \<longrightarrow>
            (\<exists>p. created = PlaylistData p \<and> owner p = u \<and>
                 find (\<lambda>x. playlist_id x = playlist_id p) (playlists s') = Some p)"
  proof
    assume c: "playlist_create perm validate now (AuthUser u) new_data s = (Response 201 created, s')"
    let ?n = "next_pk (map playlist_id (playlists s))"
    from c obtain v where v: "validate new_data = Inr v" and p: "has_permission perm POST (AuthUser u)"
      by (auto simp: playlist_create_def permission_denied_def forbidden_def split: if_splits sum.splits)
    let ?p = "v\<lparr>playlist_id := ?n, owner := u, created_at := now\<rparr>"
    have r: "created = PlaylistData ?p" and stored: "s' = s\<lparr>playlists := playlists s @ [?p]\<rparr>"
      using c v p by (simp_all add: playlist_create_def playlist_perform_create_def Let_def)
    have fresh: "\<forall>x \<in> set (playlists s). playlist_id x \<noteq> ?n"
      using next_pk_fresh [of _ "map playlist_id (playlists s)"] by fastforce
    have "find (\<lambda>x. playlist_id x = ?n) (playlists s @ [?p]) = Some ?p"
      using fresh by (intro find_pk_append_fresh) simp_all
    then show "\<exists>p. created = PlaylistData p \<and> owner p = u \<and>
                 find (\<lambda>x. playlist_id x = playlist_id p) (playlists s') = Some p"
      using r stored by simp
  qed
  have update: "fst (PlaylistViewSet_detail m (AuthUser X) (PkInt pid) payload st) = Response 200 (PlaylistData P') \<and>
      owner P' = X \<and>
      find (\<lambda>p. playlist_id p = pid) (playlists (snd (PlaylistViewSet_detail m (AuthUser X) (PkInt pid) payload st)))
        = Some P' \<and>
      map owner (playlists (snd (PlaylistViewSet_detail m (AuthUser X) (PkInt pid) payload st)))
        = map owner (playlists st)"
    if d: "distinct (map playlist_id (playlists st))"
      and fP: "find (\<lambda>p. playlist_id p = pid) (playlists st) = Some P"
      and oP: "owner P = X"
      and mm: "m = PUT \<or> m = PATCH"
      and ti: "payload_title payload = None \<and> m = PATCH \<and> P' = P \<or>
               (\<exists>t. payload_title payload = Some t \<and> t \<noteq> [] \<and> P' = P\<lparr>playlist_title := t\<rparr>)"
  proof -
    have pid: "playlist_id P = pid" and mem: "P \<in> set (playlists st)"
      using fP find_pk_member by fastforce+
    have P': "playlist_id P' = pid" "owner P' = X"
      using oP ti pid by auto
    obtain queryset where q: "playlist_get_queryset (AuthUser X) st = Some queryset"
      and f: "find (\<lambda>p. playlist_id p = pid) queryset = Some P"
      using playlist_queryset_find [OF d, of X pid] fP oP by auto
    have ser: "PlaylistSerializer_update (m = PATCH) P payload = Inr P'"
      using mm ti by (auto simp: PlaylistSerializer_update_def PlaylistSerializer_title_def)
    have sv: "save_row playlist_id P' (playlists st) =
                map (\<lambda>y. if playlist_id y = pid then P' else y) (playlists st)"
      using save_row_existing [of P "playlists st" playlist_id P'] mem pid P' by simp
    have upd: "PlaylistViewSet_detail m (AuthUser X) (PkInt pid) payload st =
                 (Response 200 (PlaylistData P'),
                  st\<lparr>playlists := map (\<lambda>y. if playlist_id y = pid then P' else y) (playlists st)\<rparr>)"
      using oP mm q f ser sv
      by (auto simp: PlaylistViewSet_detail_def playlist_detail_def IsPlaylistOwner_def get_object_def)
    have fnd: "find (\<lambda>p. playlist_id p = pid) (map (\<lambda>y. if playlist_id y = pid then P' else y) (playlists st)) = Some P'"
      using find_pk_map_update [OF fP P'(1)] .
    have own: "map owner (map (\<lambda>y. if playlist_id y = pid then P' else y) (playlists st)) = map owner (playlists st)"
    proof -
      have "\<forall>y \<in> set (playlists st). playlist_id y = pid \<longrightarrow> y = P"
        using find_pk_unique [OF d] fP by fastforce
      then show ?thesis
        using P'(2) oP by (intro map_field_map_update) auto
    qed
    show ?thesis
      using upd fnd own P'(2) by simp
  qed
  show ?thesis
    using create update by blast
qed

theorem playlist_owner_fixed_witness:
  "PlaylistViewSet_create 300 (AuthUser 1) \<lparr>payload_title = Some ''New Playlist'', payload_owner = Some (PkInt 2)\<rparr> duet_store
     = (Response 201 (PlaylistData \<lparr>playlist_id = 1, playlist_title = ''New Playlist'', owner = 1,
                                      created_at = 300, playlist_songs = {||}\<rparr>),
        duet_store\<lparr>playlists :=
          [\<lparr>playlist_id = 1, playlist_title = ''New Playlist'', owner = 1, created_at = 300, playlist_songs = {||}\<rparr>]\<rparr>) \<and>
   distinct (map playlist_id (playlists test_store)) \<and>
   find (\<lambda>p. playlist_id p = 1) (playlists test_store) = Some old_playlist \<and>
   owner old_playlist = 1 \<and>
   fst (PlaylistViewSet_detail PATCH (AuthUser 1) (PkInt 1)
          \<lparr>payload_title = Some ''New Playlist'', payload_owner = Some (PkInt 2)\<rparr> test_store)
     = Response 200 (PlaylistData (old_playlist\<lparr>playlist_title := ''New Playlist''\<rparr>)) \<and>
   owner (old_playlist\<lparr>playlist_title := ''New Playlist''\<rparr>) = 1 \<and>
   map owner (playlists (snd (PlaylistViewSet_detail PATCH (AuthUser 1) (PkInt 1)
          \<lparr>payload_title = Some ''New Playlist'', payload_owner = Some (PkInt 2)\<rparr> test_store)))
     = [1, 2]"
proof -
  have d: "distinct (map playlist_id (playlists test_store))"
    by (simp add: fixture_defs)
  have f: "find (\<lambda>p. playlist_id p = 1) (playlists test_store) = Some old_playlist"
    by (simp add: fixture_defs)
  have o: "owner old_playlist = 1"
    by (simp add: old_playlist_def)
  have c: "playlist_create IsPlaylistOwner PlaylistSerializer_create 300 (AuthUser 1)
             \<lparr>payload_title = Some ''New Playlist'', payload_owner = Some (PkInt 2)\<rparr> duet_store
     = (Response 201 (PlaylistData \<lparr>playlist_id = 1, playlist_title = ''New Playlist'', owner = 1,
                                      created_at = 300, playlist_songs = {||}\<rparr>),
        duet_store\<lparr>playlists :=
          [\<lparr>playlist_id = 1, playlist_title = ''New Playlist'', owner = 1, created_at = 300, playlist_songs = {||}\<rparr>]\<rparr>)"
    by (simp add: playlist_create_def playlist_perform_create_def IsPlaylistOwner_def
        PlaylistSerializer_create_def PlaylistSerializer_title_def next_pk_def Let_def duet_store_def)
  have l: "map owner (playlists test_store) = [1, 2]"
    by (simp add: fixture_defs)
  show ?thesis
    using playlist_owner_fixed [where perm = IsPlaylistOwner and validate = PlaylistSerializer_create
        and now = 300 and u = 1 and s = duet_store
        and new_data = "\<lparr>payload_title = Some ''New Playlist'', payload_owner = Some (PkInt 2)\<rparr>"
        and st = test_store and pid = 1 and P = old_playlist and X = 1 and m = PATCH
        and payload = "\<lparr>payload_title = Some ''New Playlist'', payload_owner = Some (PkInt 2)\<rparr>"
        and supplied = "PkInt 2" and P' = "old_playlist\<lparr>playlist_title := ''New Playlist''\<rparr>"]
      d f o c l
    by (simp add: PlaylistViewSet_create_def)
qed

text \<open>
  C3 as stated fails for an update that does not validate: a PUT by the owner with an
  owner value and no title is answered 400, not 200.
\<close>

theorem playlist_update_counterexample:
  "find (\<lambda>p. playlist_id p = 1) (playlists test_store) = Some old_playlist \<and>
   owner old_playlist = 1 \<and>
   PlaylistViewSet_detail PUT (AuthUser 1) (PkInt 1) \<lparr>payload_title = None, payload_owner = Some (PkInt 2)\<rparr> test_store
     = (Response 400 (FieldErrors ''title'' [''This field is required.'']), test_store)"
  by (simp add: PlaylistViewSet_detail_def playlist_detail_def IsPlaylistOwner_def
      playlist_get_queryset_def get_object_def PlaylistSerializer_update_def PlaylistSerializer_title_def
      fixture_defs)

section \<open>List endpoints\<close>

text \<open>
  C9: every list endpoint applies its default ordering and its search fields. The users
  come by user name ascending, and are those whose user name or country contains every
  search term; the songs and the albums come by release date descending, and are those
  every term of which is contained in the title or in the user name of one and the same
  artist; the playlists of the requester come by creation time descending, and are those
  whose title contains every term. Containment is without regard to case, and each result
  holds the matching rows of the table once each.
\<close>

theorem list_ordering_and_search:
  "sorted (map username (user_list terms st)) \<and>
   mset (user_list terms st) =
     filter_mset (\<lambda>u. \<forall>t \<in> set terms.
        icontains t (username u) \<or> (\<exists>c. country u = Some c \<and> icontains t c)) (mset (users st)) \<and>
   sorted (rev (map release_date (release_list k terms st))) \<and>
   mset (release_list k terms st) =
     filter_mset (\<lambda>x. (\<forall>t \<in> set terms. icontains t (title x)) \<or>
        (\<exists>a \<in> set (users st). user_id a |\<in>| artists x \<and>
           (\<forall>t \<in> set terms. icontains t (title x) \<or> icontains t (username a)))) (mset (table k st)) \<and>
   (\<exists>ps. playlist_list (AuthUser u) terms st = Some ps \<and>
      sorted (rev (map created_at ps)) \<and>
      mset ps = filter_mset (\<lambda>p. owner p = u \<and> (\<forall>t \<in> set terms. icontains t (playlist_title p)))
                  (mset (playlists st)))"
proof -
  have su: "search_matches terms (user_search_fields x) \<longleftrightarrow>
      (\<forall>t \<in> set terms. icontains t (username x) \<or> (\<exists>c. country x = Some c \<and> icontains t c))" for x
    by (cases "country x") (auto simp: search_matches_def user_search_fields_def)
  have sp: "search_matches terms [playlist_title p] \<longleftrightarrow> (\<forall>t \<in> set terms. icontains t (playlist_title p))" for p :: playlist
    by (simp add: search_matches_def)
  have u1: "sorted (map username (user_list terms st))"
    by (simp add: user_list_def user_queryset_def sorted_filter)
  have u2: "mset (user_list terms st) =
     filter_mset (\<lambda>u. \<forall>t \<in> set terms.
        icontains t (username u) \<or> (\<exists>c. country u = Some c \<and> icontains t c)) (mset (users st))"
    by (simp add: user_list_def user_queryset_def su)
  have r1: "sorted (rev (map release_date (release_list k terms st)))"
    unfolding release_list_def release_queryset_def by (rule sorted_desc_filter)
  have r2: "mset (release_list k terms st) =
     filter_mset (\<lambda>x. (\<forall>t \<in> set terms. icontains t (title x)) \<or>
        (\<exists>a \<in> set (users st). user_id a |\<in>| artists x \<and>
           (\<forall>t \<in> set terms. icontains t (title x) \<or> icontains t (username a)))) (mset (table k st))"
    by (simp add: release_list_def release_queryset_def release_search_rows_match)
  let ?ps = "filter (\<lambda>p. search_matches terms [playlist_title p])
               (rev (sort_key created_at (rev (filter (\<lambda>p. owner p = u) (playlists st)))))"
  have p0: "playlist_list (AuthUser u) terms st = Some ?ps"
    by (simp add: playlist_list_def playlist_get_queryset_def)
  have p1: "sorted (rev (map created_at ?ps))"
    by (rule sorted_desc_filter)
  have p2: "mset ?ps = filter_mset (\<lambda>p. owner p = u \<and> (\<forall>t \<in> set terms. icontains t (playlist_title p)))
                  (mset (playlists st))"
    by (simp add: sp filter_filter_mset conj_commute)
  show ?thesis
    using u1 u2 r1 r2 p0 p1 p2 by blast
qed

theorem list_ordering_and_search_witness:
  "user_list [''OLD''] test_store = [old_user, old_user_2] \<and>
   sorted (map username (user_list [''OLD''] test_store)) \<and>
   release_list Song [''OLD''] test_store = [old_song, old_song_2] \<and>
   sorted (rev (map release_date (release_list Song [''OLD''] test_store))) \<and>
   playlist_list (AuthUser 2) [''OLD''] test_store = Some [old_playlist_2] \<and>
   user_list [''us'', ''_2''] test_store = [old_user_2] \<and>
   release_list Song [''USER_2''] test_store = [old_song_2] \<and>
   release_list Album [] test_store = [old_album, old_album_2] \<and>
   user_list [''bg''] duet_store = [alice] \<and>
   release_list Song [''ALICE''] duet_store = [duet] \<and>
   release_list Song [''duet'', ''bob''] duet_store = [duet] \<and>
   release_list Song [''alice'', ''bob''] duet_store = [] \<and>
   mset (release_list Song [''alice'', ''bob''] duet_store) = {#}"
proof -
  have a: "user_list [''OLD''] test_store = [old_user, old_user_2]"
    by (simp add: search_defs fixture_defs)
  have b: "release_list Song [''OLD''] test_store = [old_song, old_song_2]"
    by (simp add: search_defs fixture_defs)
  have c: "playlist_list (AuthUser 2) [''OLD''] test_store = Some [old_playlist_2]"
    by (simp add: search_defs fixture_defs)
  have e: "user_list [''us'', ''_2''] test_store = [old_user_2]"
    by (simp add: search_defs fixture_defs)
  have f: "release_list Song [''USER_2''] test_store = [old_song_2]"
    by (simp add: search_defs fixture_defs)
  have g: "release_list Album [] test_store = [old_album, old_album_2]"
    by (simp add: search_defs fixture_defs)
  have h: "user_list [''bg''] duet_store = [alice]"
    by (simp add: search_defs duet_defs)
  have i: "release_list Song [''ALICE''] duet_store = [duet]"
    by (simp add: search_defs duet_defs)
  have j: "release_list Song [''duet'', ''bob''] duet_store = [duet]"
    by (simp add: search_defs duet_defs)
  have l: "release_list Song [''alice'', ''bob''] duet_store = []"
    by (simp add: search_defs duet_defs)
  have s: "sorted (map username (user_list [''OLD''] test_store)) \<and>
           sorted (rev (map release_date (release_list Song [''OLD''] test_store)))"
    using list_ordering_and_search [of "[''OLD'']" test_store Song 2] by blast
  show ?thesis
    using a b c e f g h i j l s by simp
qed

section \<open>Soft delete, repeated\<close>

text \<open>
  C10, as amended: the soft delete is idempotent on the stored state. After the DELETE by
  \<open>U\<close> on the detail endpoint of \<open>U\<close>, a second DELETE that reaches the view with
  \<^verbatim>\<open>request.user\<close> resolved to \<open>U\<close> leaves the store as the first left it and answers
  204 again, the row of \<open>U\<close> present with the active flag cleared. A client, though,
  presents the bearer token of \<open>U\<close>: for an active \<open>U\<close> the first DELETE answers 204, and
  the second is refused with 401, the token of an inactive user resolving to no identity;
  the store stays as the first DELETE left it.
\<close>

theorem soft_delete_idempotent:
  assumes "distinct (map user_id (users st))"
    and "find (\<lambda>u. user_id u = k) (users st) = Some U"
    and "st' = snd (UserViewSet_destroy (AuthUser k) (PkInt k) st)"
  shows "snd (UserViewSet_destroy (AuthUser k) (PkInt k) st') = st' \<and>
         fst (UserViewSet_destroy (AuthUser k) (PkInt k) st') = Response 204 NoData \<and>
         find (\<lambda>u. user_id u = k) (users st') = Some (U\<lparr>is_active := False\<rparr>) \<and>
         (is_active U \<longrightarrow>
            UserViewSet_destroy_request (BearerToken k) (PkInt k) st = (Response 204 NoData, st') \<and>
            UserViewSet_destroy_request (BearerToken k) (PkInt k) st'
              = (Response 401 (ErrorDetail ''detail'' ''User inactive or deleted.''), st'))"
proof -
  let ?U' = "U\<lparr>is_active := False\<rparr>"
  let ?upd = "\<lambda>u. if user_id u = k then ?U' else u"
  let ?st1 = "st\<lparr>users := map ?upd (users st)\<rparr>"
  have U: "user_id ?U' = k"
    using assms(2) find_pk_member by fastforce
  have one: "UserViewSet_destroy (AuthUser k) (PkInt k) st = (Response 204 NoData, ?st1)"
    by (rule user_destroy_own [OF assms(1,2)])
  then have eq: "st' = ?st1"
    using assms(3) by simp
  have d1: "distinct (map user_id (users ?st1))"
  proof -
    have "map user_id (map ?upd (users st)) = map user_id (users st)"
      using U by (rule map_pk_map_update)
    then show ?thesis
      using assms(1) by (simp del: map_map)
  qed
  have f1: "find (\<lambda>u. user_id u = k) (users ?st1) = Some ?U'"
    using find_pk_map_update [OF assms(2) U] by simp
  have again: "map (\<lambda>u. if user_id u = k then ?U'\<lparr>is_active := False\<rparr> else u) (map ?upd (users st)) = map ?upd (users st)"
    using U by (induction "users st") auto
  have two: "UserViewSet_destroy (AuthUser k) (PkInt k) ?st1 = (Response 204 NoData, ?st1)"
    using user_destroy_own [OF d1 f1] again by simp
  have r1: "UserViewSet_destroy_request (BearerToken k) (PkInt k) st = (Response 204 NoData, ?st1)"
    if "is_active U"
    using that one resolve_token_user [OF assms(2)] by (simp add: UserViewSet_destroy_request_def)
  have r2: "UserViewSet_destroy_request (BearerToken k) (PkInt k) ?st1
              = (Response 401 (ErrorDetail ''detail'' ''User inactive or deleted.''), ?st1)"
    using resolve_token_user [OF f1]
    by (simp add: UserViewSet_destroy_request_def authentication_failed_def)
  show ?thesis
    unfolding eq using two f1 r1 r2 by simp
qed

theorem soft_delete_idempotent_witness:
  "distinct (map user_id (users test_store)) \<and>
   find (\<lambda>u. user_id u = 2) (users test_store) = Some old_user_2 \<and>
   deleted_store = snd (UserViewSet_destroy (AuthUser 2) (PkInt 2) test_store) \<and>
   is_active old_user_2 \<and>
   UserViewSet_destroy (AuthUser 2) (PkInt 2) deleted_store = (Response 204 NoData, deleted_store) \<and>
   UserViewSet_destroy_request (BearerToken 2) (PkInt 2) test_store = (Response 204 NoData, deleted_store) \<and>
   status_code (fst (UserViewSet_destroy_request (BearerToken 2) (PkInt 2) deleted_store)) = 401 \<and>
   snd (UserViewSet_destroy_request (BearerToken 2) (PkInt 2) deleted_store) = deleted_store"
proof -
  have d: "distinct (map user_id (users test_store))"
    by (simp add: fixture_defs)
  have f: "find (\<lambda>u. user_id u = 2) (users test_store) = Some old_user_2"
    by (simp add: fixture_defs)
  have s: "deleted_store = snd (UserViewSet_destroy (AuthUser 2) (PkInt 2) test_store)"
    using user_destroy_own [OF d f] by (simp add: deleted_store_def fixture_defs)
  have a: "is_active old_user_2"
    by (simp add: old_user_2_def)
  show ?thesis
    using soft_delete_idempotent [OF d f s] d f s a by (simp add: prod_eq_iff)
qed

text \<open>
  C10 as stated fails at the second answer: \<open>old_user_2\<close> deletes their account twice with
  their token, and the second DELETE is answered 401, not 204.
\<close>

theorem second_delete_counterexample:
  "users test_store = [old_user, old_user_2] \<and>
   is_active old_user_2 \<and>
   UserViewSet_destroy_request (BearerToken 2) (PkInt 2) test_store = (Response 204 NoData, deleted_store) \<and>
   users deleted_store = [old_user, old_user_2\<lparr>is_active := False\<rparr>] \<and>
   UserViewSet_destroy_request (BearerToken 2) (PkInt 2) deleted_store
     = (Response 401 (ErrorDetail ''detail'' ''User inactive or deleted.''), deleted_store)"
  by (simp add: UserViewSet_destroy_request_def resolve_token_def authentication_failed_def
      UserViewSet_destroy_def user_destroy_def IsUserOrReadOnly_def get_object_def user_queryset_def
      save_row_def deleted_store_def fixture_defs)

end
